theory Spec2Isabelle
  imports Complex_Main "HOL-Library.AList" "HOL-Library.Char_ord"
begin

section \<open>JavaScript values and the built-ins the utilities call\<close>

text \<open>
  The utilities receive values decoded from request bodies and query strings. They are modelled
  by the datatype \<open>jsval\<close>. Conventions of the model:
  \<^item> a \<open>char\<close> is one UTF-16 code unit below 256 (the Latin-1 range), so \<open>length\<close> is
    JavaScript's \<^verbatim>\<open>.length\<close>;
  \<^item> a number is \<open>NaN\<close>, an infinity or an exact real; rounding and overflow of IEEE doubles
    are not represented, and \<open>-0\<close> is \<open>0\<close>;
  \<^item> an object is a plain object (its prototype is \<^verbatim>\<open>Object.prototype\<close>), given by the list
    of its own enumerable properties in insertion order; own properties hold data, as
    \<^verbatim>\<open>JSON.parse\<close> produces them, never functions;
  \<^item> \<open>JBuiltin name\<close> is the member \<open>name\<close> that every plain object inherits from
    \<^verbatim>\<open>Object.prototype\<close>: a built-in function, or the prototype object itself for the name
    \<^verbatim>\<open>__proto__\<close>. It occurs only as the result of a property lookup.
\<close>

datatype jsnum = NaN | NegInf | Fin real | PosInf

datatype jsval =
    JUndefined
  | JNull
  | JBool bool
  | JNum jsnum
  | JStr string
  | JArr "jsval list"
  | JObj "(string \<times> jsval) list"
  | JBuiltin string

text \<open>
  Four built-ins are algorithms of the host and not of this repository; they are parameters of
  the model: printing a number that is not a moderate integer (\<^verbatim>\<open>Number::toString\<close>),
  \<^verbatim>\<open>new URL(s).toString()\<close> (\<open>None\<close> when the constructor throws), \<^verbatim>\<open>JSON.parse\<close>
  (\<open>None\<close> when it throws) and the source text that \<^verbatim>\<open>String\<close> gives for a built-in function.
\<close>

record host =
  fracToString :: "real \<Rightarrow> string"
  urlHref :: "string \<Rightarrow> string option"
  jsonParse :: "string \<Rightarrow> jsval option"
  builtinSource :: "string \<Rightarrow> string"

text \<open>
  A host used to run the model on concrete inputs that reach none of the first three host
  algorithms.
\<close>

definition exampleHost :: host where
  "exampleHost =
     \<lparr>fracToString = (\<lambda>x. []), urlHref = (\<lambda>s. None), jsonParse = (\<lambda>s. None),
      builtinSource = (\<lambda>name. ''function '' @ name @ ''() { [native code] }'')\<rparr>"

subsection \<open>Characters and strings\<close>

definition inRange :: "char \<Rightarrow> char \<Rightarrow> char \<Rightarrow> bool" where
  "inRange lo hi c = (lo \<le> c \<and> c \<le> hi)"

definition isDigit :: "char \<Rightarrow> bool" where
  "isDigit c = inRange CHR ''0'' CHR ''9'' c"

definition isAlpha :: "char \<Rightarrow> bool" where
  "isAlpha c = (inRange CHR ''a'' CHR ''z'' c \<or> inRange CHR ''A'' CHR ''Z'' c)"

text \<open>The class \<^verbatim>\<open>\w\<close>.\<close>

definition isWord :: "char \<Rightarrow> bool" where
  "isWord c = (isAlpha c \<or> isDigit c \<or> c = CHR ''_'')"

text \<open>
  \<^verbatim>\<open>WhiteSpace\<close> and \<^verbatim>\<open>LineTerminator\<close> below 256: TAB, LF, VT, FF, CR, space and NBSP. This is
  what \<^verbatim>\<open>trim\<close> removes and what \<^verbatim>\<open>\s\<close> matches.
\<close>

definition isSpace :: "char \<Rightarrow> bool" where
  "isSpace c = (of_char c \<in> {9, 10, 11, 12, 13, 32, 160 :: nat})"

definition trimStart :: "string \<Rightarrow> string" where
  "trimStart s = dropWhile isSpace s"

definition trimEnd :: "string \<Rightarrow> string" where
  "trimEnd s = rev (dropWhile isSpace (rev s))"

definition trim :: "string \<Rightarrow> string" where
  "trim s = trimEnd (trimStart s)"

text \<open>
  \<^verbatim>\<open>toLowerCase\<close> on code units below 256: A-Z and the accented capitals 0xC0-0xDE
  (the multiplication sign 0xD7 apart) move up by 32.
\<close>

definition lowerChar :: "char \<Rightarrow> char" where
  "lowerChar c =
     (let n = (of_char c :: nat)
      in if (65 \<le> n \<and> n \<le> 90) \<or> (192 \<le> n \<and> n \<le> 222 \<and> n \<noteq> 215)
         then char_of (n + 32) else c)"

definition toLowerCase :: "string \<Rightarrow> string" where
  "toLowerCase s = map lowerChar s"

definition endsWith :: "string \<Rightarrow> string \<Rightarrow> bool" where
  "endsWith s suffix = (length suffix \<le> length s \<and> drop (length s - length suffix) s = suffix)"

text \<open>\<^verbatim>\<open>s.slice(0, n)\<close> for an integral \<open>n\<close>: a negative end counts from the end of the string.\<close>

definition slice0 :: "'a list \<Rightarrow> int \<Rightarrow> 'a list" where
  "slice0 s n = (if n < 0 then take (nat (int (length s) + n)) s else take (nat n) s)"

text \<open>\<^verbatim>\<open>xs.join(sep)\<close> on an array of strings.\<close>

fun join :: "string \<Rightarrow> string list \<Rightarrow> string" where
  "join sep [] = []"
| "join sep [x] = x"
| "join sep (x # y # ys) = x @ sep @ join sep (y # ys)"

text \<open>\<^verbatim>\<open>s.replace(/\s+/g, ' ')\<close>: every maximal run of white space becomes one space.\<close>

function collapseSpaces :: "string \<Rightarrow> string" where
  "collapseSpaces [] = []"
| "collapseSpaces (c # cs) =
     (if isSpace c then CHR '' '' # collapseSpaces (dropWhile isSpace cs)
      else c # collapseSpaces cs)"
  by pat_completeness auto
termination
  by (relation "measure length") (auto simp: length_dropWhile_le less_Suc_eq_le)

subsection \<open>Numbers\<close>

definition digitVal :: "char \<Rightarrow> nat" where
  "digitVal c =
     (if isDigit c then of_char c - 48
      else if inRange CHR ''a'' CHR ''f'' c then of_char c - 87
      else of_char c - 55)"

definition isHexDigit :: "char \<Rightarrow> bool" where
  "isHexDigit c = (isDigit c \<or> inRange CHR ''a'' CHR ''f'' c \<or> inRange CHR ''A'' CHR ''F'' c)"

definition digitsVal :: "nat \<Rightarrow> string \<Rightarrow> nat" where
  "digitsVal base ds = foldl (\<lambda>a c. base * a + digitVal c) 0 ds"

fun natToString :: "nat \<Rightarrow> string" where
  "natToString n =
     (if n < 10 then [char_of (48 + n)]
      else natToString (n div 10) @ [char_of (48 + n mod 10)])"

declare natToString.simps [simp del]

definition intToString :: "int \<Rightarrow> string" where
  "intToString i = (if i < 0 then CHR ''-'' # natToString (nat (- i)) else natToString (nat i))"

text \<open>
  \<^verbatim>\<open>Number::toString\<close>: an integer of magnitude below \<open>10^21\<close> prints as its decimal digits;
  every other finite number is printed by the host.
\<close>

definition numToString :: "host \<Rightarrow> jsnum \<Rightarrow> string" where
  "numToString h n =
     (case n of
        NaN \<Rightarrow> ''NaN''
      | PosInf \<Rightarrow> ''Infinity''
      | NegInf \<Rightarrow> ''-Infinity''
      | Fin x \<Rightarrow>
          (if x = real_of_int \<lfloor>x\<rfloor> \<and> \<bar>x\<bar> < 10 ^ 21 then intToString \<lfloor>x\<rfloor>
           else fracToString h x))"

definition isNaN :: "jsnum \<Rightarrow> bool" where
  "isNaN n = (n = NaN)"

text \<open>The comparisons \<^verbatim>\<open>a < b\<close> and \<^verbatim>\<open>a > b\<close> on numbers; both are false when an operand is NaN.\<close>

fun numLess :: "jsnum \<Rightarrow> jsnum \<Rightarrow> bool" where
  "numLess NaN _ = False"
| "numLess _ NaN = False"
| "numLess _ NegInf = False"
| "numLess NegInf _ = True"
| "numLess PosInf _ = False"
| "numLess (Fin _) PosInf = True"
| "numLess (Fin x) (Fin y) = (x < y)"

definition numGreater :: "jsnum \<Rightarrow> jsnum \<Rightarrow> bool" where
  "numGreater a b = numLess b a"

definition numNeg :: "jsnum \<Rightarrow> jsnum" where
  "numNeg n = (case n of NaN \<Rightarrow> NaN | NegInf \<Rightarrow> PosInf | PosInf \<Rightarrow> NegInf | Fin x \<Rightarrow> Fin (- x))"

text \<open>
  \<^verbatim>\<open>StringToNumber\<close>: the grammar \<^verbatim>\<open>StrNumericLiteral\<close> between optional white space. The
  exponent part, after the letter e or E:
\<close>

definition parseExponent :: "string \<Rightarrow> int option" where
  "parseExponent s =
     (let (neg, ds) = (case s of
                         c # r \<Rightarrow> (if c = CHR ''-'' then (True, r)
                                   else if c = CHR ''+'' then (False, r) else (False, s))
                       | [] \<Rightarrow> (False, s))
      in if ds \<noteq> [] \<and> list_all isDigit ds
         then Some (if neg then - int (digitsVal 10 ds) else int (digitsVal 10 ds))
         else None)"

definition isExpChar :: "char \<Rightarrow> bool" where
  "isExpChar c = (c = CHR ''e'' \<or> c = CHR ''E'')"

definition parseUnsignedDecimal :: "string \<Rightarrow> jsnum" where
  "parseUnsignedDecimal s =
     (if s = ''Infinity'' then PosInf
      else
        let mant = takeWhile (\<lambda>c. \<not> isExpChar c) s;
            rest = dropWhile (\<lambda>c. \<not> isExpChar c) s;
            ip = takeWhile (\<lambda>c. c \<noteq> CHR ''.'') mant;
            fp = drop 1 (dropWhile (\<lambda>c. c \<noteq> CHR ''.'') mant);
            ex = (if rest = [] then Some 0 else parseExponent (drop 1 rest))
        in if list_all isDigit ip \<and> list_all isDigit fp \<and> (ip \<noteq> [] \<or> fp \<noteq> [])
           then (case ex of
                   None \<Rightarrow> NaN
                 | Some e \<Rightarrow> Fin (real (digitsVal 10 (ip @ fp)) / 10 ^ length fp * 10 powi e))
           else NaN)"

definition parseRadix :: "nat \<Rightarrow> string \<Rightarrow> jsnum" where
  "parseRadix base ds =
     (if ds \<noteq> [] \<and> list_all (\<lambda>c. isHexDigit c \<and> digitVal c < base) ds
      then Fin (real (digitsVal base ds)) else NaN)"

definition stringToNumber :: "string \<Rightarrow> jsnum" where
  "stringToNumber str =
     (let s = trim str
      in if s = [] then Fin 0
         else if take 2 s = ''0x'' \<or> take 2 s = ''0X'' then parseRadix 16 (drop 2 s)
         else if take 2 s = ''0o'' \<or> take 2 s = ''0O'' then parseRadix 8 (drop 2 s)
         else if take 2 s = ''0b'' \<or> take 2 s = ''0B'' then parseRadix 2 (drop 2 s)
         else if take 1 s = ''-'' then numNeg (parseUnsignedDecimal (drop 1 s))
         else if take 1 s = ''+'' then parseUnsignedDecimal (drop 1 s)
         else parseUnsignedDecimal s)"

subsection \<open>Property lookup\<close>

text \<open>
  The names that a plain object inherits from \<^verbatim>\<open>Object.prototype\<close>. The operator \<^verbatim>\<open>in\<close> and the
  lookup \<^verbatim>\<open>obj[key]\<close> follow the prototype chain: an own property comes first, then the
  inherited member, and \<^verbatim>\<open>undefined\<close> is left for every other name.
\<close>

definition objectPrototype :: "string list" where
  "objectPrototype =
     [''constructor'', ''__defineGetter__'', ''__defineSetter__'', ''hasOwnProperty'',
      ''__lookupGetter__'', ''__lookupSetter__'', ''isPrototypeOf'', ''propertyIsEnumerable'',
      ''toString'', ''valueOf'', ''__proto__'', ''toLocaleString'']"

definition inherited :: "string \<Rightarrow> bool" where
  "inherited key = (key \<in> set objectPrototype)"

definition hasProp :: "(string \<times> jsval) list \<Rightarrow> string \<Rightarrow> bool" where
  "hasProp obj key = (map_of obj key \<noteq> None \<or> inherited key)"

definition getProp :: "(string \<times> jsval) list \<Rightarrow> string \<Rightarrow> jsval" where
  "getProp obj key =
     (case map_of obj key of
        Some v \<Rightarrow> v
      | None \<Rightarrow> if inherited key then JBuiltin key else JUndefined)"

text \<open>
  The assignment \<^verbatim>\<open>obj[key] = v\<close> on an object built from \<^verbatim>\<open>{}\<close> by such assignments: it
  keeps the position of an existing property and appends a new one. For the key
  \<^verbatim>\<open>__proto__\<close> it runs the inherited setter, which adds no property.
\<close>

definition assignProp :: "(string \<times> jsval) list \<Rightarrow> string \<Rightarrow> jsval \<Rightarrow> (string \<times> jsval) list" where
  "assignProp obj key v = (if key = ''__proto__'' then obj else AList.update key v obj)"

subsection \<open>Coercions\<close>

text \<open>
  \<^verbatim>\<open>String(v)\<close>; \<open>None\<close> stands for the \<^verbatim>\<open>TypeError\<close> that the conversion throws. An array
  prints its elements joined by commas, \<^verbatim>\<open>null\<close> and \<^verbatim>\<open>undefined\<close> elements as the empty
  string, and throws when an element does. A plain object prints as \<^verbatim>\<open>[object Object]\<close>
  through the inherited \<^verbatim>\<open>toString\<close>; when it has a property of its own named
  \<^verbatim>\<open>toString\<close>, that property is data and cannot be called, the inherited \<^verbatim>\<open>valueOf\<close>
  returns the object, and the conversion throws. A built-in function prints as its source
  text; the prototype object prints as \<^verbatim>\<open>[object Object]\<close>.
\<close>

fun toString :: "host \<Rightarrow> jsval \<Rightarrow> string option" where
  "toString h JUndefined = Some ''undefined''"
| "toString h JNull = Some ''null''"
| "toString h (JBool b) = Some (if b then ''true'' else ''false'')"
| "toString h (JNum n) = Some (numToString h n)"
| "toString h (JStr s) = Some s"
| "toString h (JArr xs) =
     map_option (join '','')
       (those (map (\<lambda>x. if x = JUndefined \<or> x = JNull then Some [] else toString h x) xs))"
| "toString h (JObj ps) =
     (if map_of ps ''toString'' \<noteq> None then None else Some ''[object Object]'')"
| "toString h (JBuiltin name) =
     Some (if name = ''__proto__'' then ''[object Object]'' else builtinSource h name)"

text \<open>
  \<^verbatim>\<open>Number(v)\<close>. An array or an object is converted to a string first, so the conversion
  throws when that one does.
\<close>

definition toNumber :: "host \<Rightarrow> jsval \<Rightarrow> jsnum option" where
  "toNumber h v =
     (case v of
        JUndefined \<Rightarrow> Some NaN
      | JNull \<Rightarrow> Some (Fin 0)
      | JBool b \<Rightarrow> Some (Fin (if b then 1 else 0))
      | JNum n \<Rightarrow> Some n
      | JStr s \<Rightarrow> Some (stringToNumber s)
      | _ \<Rightarrow> map_option stringToNumber (toString h v))"

text \<open>
  \<^verbatim>\<open>parseInt(v, 10)\<close>: the value is converted to a string; the result is the longest run of
  decimal digits after leading white space and an optional sign, NaN when there is none.
\<close>

definition parseDigits :: "string \<Rightarrow> jsnum" where
  "parseDigits str =
     (let s = trimStart str;
          neg = (take 1 s = ''-'');
          r = (if take 1 s = ''-'' \<or> take 1 s = ''+'' then drop 1 s else s);
          ds = takeWhile isDigit r
      in if ds = [] then NaN
         else Fin (if neg then - real (digitsVal 10 ds) else real (digitsVal 10 ds)))"

definition parseInt10 :: "host \<Rightarrow> jsval \<Rightarrow> jsnum option" where
  "parseInt10 h v = map_option parseDigits (toString h v)"

text \<open>\<^verbatim>\<open>Boolean(v)\<close>.\<close>

definition toBoolean :: "jsval \<Rightarrow> bool" where
  "toBoolean v =
     (case v of
        JUndefined \<Rightarrow> False
      | JNull \<Rightarrow> False
      | JBool b \<Rightarrow> b
      | JNum n \<Rightarrow> (n \<noteq> NaN \<and> n \<noteq> Fin 0)
      | JStr s \<Rightarrow> (s \<noteq> [])
      | _ \<Rightarrow> True)"

text \<open>
  \<^verbatim>\<open>v.length\<close> for a value that is neither null nor undefined. The length of a built-in
  function is its number of parameters.
\<close>

definition builtinLength :: "string \<Rightarrow> jsval" where
  "builtinLength name =
     (if name = ''__proto__'' then JUndefined
      else if name \<in> set [''__defineGetter__'', ''__defineSetter__''] then JNum (Fin 2)
      else if name \<in> set [''toString'', ''valueOf'', ''toLocaleString''] then JNum (Fin 0)
      else JNum (Fin 1))"

definition lengthOf :: "jsval \<Rightarrow> jsval" where
  "lengthOf v =
     (case v of
        JStr s \<Rightarrow> JNum (Fin (real (length s)))
      | JArr xs \<Rightarrow> JNum (Fin (real (length xs)))
      | JObj ps \<Rightarrow> getProp ps ''length''
      | JBuiltin name \<Rightarrow> builtinLength name
      | _ \<Rightarrow> JUndefined)"

subsection \<open>Regular expressions\<close>

text \<open>
  The patterns of the utilities use character classes, sequence, alternative, repetition and one
  word-boundary assertion. \<open>RUpto r n\<close> is \<^verbatim>\<open>r{0,n}\<close> and \<open>RWordB\<close> is \<^verbatim>\<open>\b\<close>. Matching is by
  derivatives; the assertion needs the code unit before the position (\<open>None\<close> at the start)
  and the one after it (\<open>None\<close> at the end).
\<close>

datatype rexp =
    RNone
  | REps
  | RSym "char \<Rightarrow> bool"
  | RAlt rexp rexp
  | RSeq rexp rexp
  | RStar rexp
  | RUpto rexp nat
  | RWordB

definition wordAt :: "char option \<Rightarrow> bool" where
  "wordAt c = (case c of None \<Rightarrow> False | Some x \<Rightarrow> isWord x)"

fun nullable :: "char option \<Rightarrow> char option \<Rightarrow> rexp \<Rightarrow> bool" where
  "nullable p n RNone = False"
| "nullable p n REps = True"
| "nullable p n (RSym f) = False"
| "nullable p n (RAlt r s) = (nullable p n r \<or> nullable p n s)"
| "nullable p n (RSeq r s) = (nullable p n r \<and> nullable p n s)"
| "nullable p n (RStar r) = True"
| "nullable p n (RUpto r k) = True"
| "nullable p n RWordB = (wordAt p \<noteq> wordAt n)"

fun deriv :: "char option \<Rightarrow> char \<Rightarrow> rexp \<Rightarrow> rexp" where
  "deriv p c RNone = RNone"
| "deriv p c REps = RNone"
| "deriv p c (RSym f) = (if f c then REps else RNone)"
| "deriv p c (RAlt r s) = RAlt (deriv p c r) (deriv p c s)"
| "deriv p c (RSeq r s) =
     RAlt (RSeq (deriv p c r) s) (if nullable p (Some c) r then deriv p c s else RNone)"
| "deriv p c (RStar r) = RSeq (deriv p c r) (RStar r)"
| "deriv p c (RUpto r k) = (case k of 0 \<Rightarrow> RNone | Suc m \<Rightarrow> RSeq (deriv p c r) (RUpto r m))"
| "deriv p c RWordB = RNone"

fun matchFrom :: "char option \<Rightarrow> rexp \<Rightarrow> string \<Rightarrow> bool" where
  "matchFrom p r [] = nullable p None r"
| "matchFrom p r (c # cs) = matchFrom (Some c) (deriv p c r) cs"

text \<open>\<^verbatim>\<open>/^r$/.test(s)\<close> for a pattern without flags.\<close>

definition test :: "rexp \<Rightarrow> string \<Rightarrow> bool" where
  "test r s = matchFrom None r s"

definition lit :: "string \<Rightarrow> rexp" where
  "lit s = foldr (\<lambda>c r. RSeq (RSym (\<lambda>x. x = c)) r) s REps"

definition oneOf :: "string \<Rightarrow> char \<Rightarrow> bool" where
  "oneOf cs c = (c \<in> set cs)"

definition opt :: "rexp \<Rightarrow> rexp" where
  "opt r = RAlt REps r"

fun rep :: "nat \<Rightarrow> rexp \<Rightarrow> rexp" where
  "rep 0 r = REps"
| "rep (Suc k) r = RSeq r (rep k r)"

text \<open>\<^verbatim>\<open>r+\<close>, \<^verbatim>\<open>r{n,}\<close> and \<^verbatim>\<open>r{lo,hi}\<close>.\<close>

definition plus1 :: "rexp \<Rightarrow> rexp" where
  "plus1 r = RSeq r (RStar r)"

definition repAtLeast :: "nat \<Rightarrow> rexp \<Rightarrow> rexp" where
  "repAtLeast k r = RSeq (rep k r) (RStar r)"

definition between :: "nat \<Rightarrow> nat \<Rightarrow> rexp \<Rightarrow> rexp" where
  "between lo hi r = RSeq (rep lo r) (RUpto r (hi - lo))"

definition seqs :: "rexp list \<Rightarrow> rexp" where
  "seqs rs = foldr RSeq rs REps"

definition alnum :: "char \<Rightarrow> bool" where
  "alnum c = (isAlpha c \<or> isDigit c)"

section \<open>Error model (errorHandler.js)\<close>

datatype ErrorTypes =
    VALIDATION
  | AUTHENTICATION
  | AUTHORIZATION
  | NOT_FOUND
  | EXTERNAL_API
  | DATABASE
  | NETWORK
  | INTERNAL
  | RATE_LIMIT
  | SHOPIFY_API

datatype ErrorSeverity = LOW | MEDIUM | HIGH | CRITICAL

text \<open>
  An \<^verbatim>\<open>AppError\<close>: the fields set by the constructor from its arguments. The creation
  timestamp and the stack trace are not represented.
\<close>

record AppError =
  message :: string
  type :: ErrorTypes
  statusCode :: int
  severity :: ErrorSeverity
  errContext :: "(string \<times> jsval) list"

definition createValidationError :: "string \<Rightarrow> string \<Rightarrow> jsval \<Rightarrow> AppError" where
  "createValidationError field msg v =
     \<lparr>message = ''Validation failed for '' @ field @ '': '' @ msg,
      type = VALIDATION,
      statusCode = 400,
      severity = LOW,
      errContext = [(''field'', JStr field), (''value'', v), (''validationMessage'', JStr msg)]\<rparr>"

definition createRateLimitError :: "jsval \<Rightarrow> AppError" where
  "createRateLimitError retryAfter =
     \<lparr>message = ''Rate limit exceeded. Please try again later.'',
      type = RATE_LIMIT,
      statusCode = 429,
      severity = MEDIUM,
      errContext = [(''retryAfter'', retryAfter)]\<rparr>"

text \<open>The pattern \<^verbatim>\<open>/^[^\s@]+@[^\s@]+\.[^\s@]+$/\<close> of the helper below.\<close>

definition emailRegex :: rexp where
  "emailRegex =
     (let c = RSym (\<lambda>x. \<not> isSpace x \<and> x \<noteq> CHR ''@'')
      in seqs [plus1 c, lit ''@'', plus1 c, lit ''.'', plus1 c])"

text \<open>
  What a call can throw: an \<^verbatim>\<open>AppError\<close> that the code constructs, or the \<^verbatim>\<open>TypeError\<close> of a
  conversion.
\<close>

datatype thrown = TypeError | Thrown AppError

text \<open>
  The sanitization helper of errorHandler.js (lines 327-353); it takes no options. \<open>None\<close> is a
  \<^verbatim>\<open>TypeError\<close> thrown by a conversion; the \<^verbatim>\<open>URL\<close> constructor runs inside \<^verbatim>\<open>try\<close>, which
  catches the error of the conversion too.
\<close>

definition errorHandler_sanitizeInput :: "host \<Rightarrow> jsval \<Rightarrow> string \<Rightarrow> jsval option" where
  "errorHandler_sanitizeInput h input ty =
     (if input = JNull \<or> input = JUndefined then Some JNull
      else if ty = ''string'' then
        map_option (\<lambda>s. JStr (slice0 (trim s) 1000)) (toString h input)
      else if ty = ''number'' then
        map_option (\<lambda>num. if isNaN num then JNull else JNum num) (toNumber h input)
      else if ty = ''boolean'' then Some (JBool (toBoolean input))
      else if ty = ''email'' then
        map_option (\<lambda>s. let email = toLowerCase (trim s)
                         in if test emailRegex email then JStr email else JNull)
          (toString h input)
      else if ty = ''url'' then
        Some (case toString h input of
                None \<Rightarrow> JNull
              | Some s \<Rightarrow> (case urlHref h s of None \<Rightarrow> JNull | Some u \<Rightarrow> JStr u))
      else Some input)"

text \<open>
  \<^verbatim>\<open>validateRequiredFields\<close> (lines 358-372), called with a record. The test of a field is
  \<^verbatim>\<open>!(field in data) || data[field] === null || data[field] === undefined || data[field] === ''\<close>.
  The loop pushes each missing field onto \<^verbatim>\<open>missing\<close>; a thrown error is the left injection.
\<close>

definition fieldMissing :: "(string \<times> jsval) list \<Rightarrow> string \<Rightarrow> bool" where
  "fieldMissing data field =
     (\<not> hasProp data field \<or> getProp data field = JNull \<or> getProp data field = JUndefined
      \<or> getProp data field = JStr [])"

fun collectMissing :: "(string \<times> jsval) list \<Rightarrow> string list \<Rightarrow> string list \<Rightarrow> string list" where
  "collectMissing data [] missing = missing"
| "collectMissing data (field # rest) missing =
     (if fieldMissing data field then collectMissing data rest (missing @ [field])
      else collectMissing data rest missing)"

definition validateRequiredFields :: "(string \<times> jsval) list \<Rightarrow> string list \<Rightarrow> AppError + bool" where
  "validateRequiredFields data requiredFields =
     (let missing = collectMissing data requiredFields []
      in if length missing > 0
         then Inl (createValidationError ''required_fields''
                     (''Missing required fields: '' @ join '', '' missing)
                     (JArr (map JStr missing)))
         else Inr True)"

section \<open>Validation and sanitization (validation.js)\<close>

text \<open>
  Both option objects (\<^verbatim>\<open>rules.options\<close> for the sanitizer, \<^verbatim>\<open>rules.validation\<close> for the
  validator) are objects with optional properties. \<open>None\<close> is an absent property; the flags
  \<^verbatim>\<open>allowNull\<close> and \<^verbatim>\<open>required\<close> are given by their truthiness; lengths and item counts are
  integers, bounds are numbers; \<^verbatim>\<open>pattern.test\<close> of a caller's pattern is a predicate on strings.
\<close>

record options =
  allowNull :: bool
  maxLength :: "int option"
  minOpt :: "jsnum option"
  maxOpt :: "jsnum option"
  itemType :: "string option"
  maxItems :: "int option"
  required :: bool
  minLength :: "int option"
  pattern :: "(string \<Rightarrow> bool) option"
  minItems :: "int option"

text \<open>The default argument \<^verbatim>\<open>options = {}\<close>.\<close>

definition noOptions :: options where
  "noOptions =
     \<lparr>allowNull = False, maxLength = None, minOpt = None, maxOpt = None, itemType = None,
      maxItems = None, required = False, minLength = None, pattern = None, minItems = None\<rparr>"

text \<open>\<^verbatim>\<open>a || b\<close> where \<open>a\<close> is an optional integer: absent and \<open>0\<close> are falsy.\<close>

definition truthy :: "int option \<Rightarrow> bool" where
  "truthy a = (case a of None \<Rightarrow> False | Some n \<Rightarrow> n \<noteq> 0)"

definition orElse :: "int option \<Rightarrow> int \<Rightarrow> int" where
  "orElse a b = (case a of None \<Rightarrow> b | Some n \<Rightarrow> if n \<noteq> 0 then n else b)"

text \<open>\<^verbatim>\<open>bound !== undefined && p(bound)\<close> for an optional property.\<close>

definition definedAnd :: "'a option \<Rightarrow> ('a \<Rightarrow> bool) \<Rightarrow> bool" where
  "definedAnd a p = (case a of None \<Rightarrow> False | Some x \<Rightarrow> p x)"

definition MAX_LENGTHS :: "string \<Rightarrow> int option" where
  "MAX_LENGTHS = map_of
     [(''shortText'', 100), (''mediumText'', 500), (''longText'', 2000), (''name'', 100),
      (''email'', 254), (''phone'', 20), (''address'', 200), (''city'', 100), (''country'', 100),
      (''postalCode'', 20), (''token'', 1000), (''description'', 2000), (''title'', 200),
      (''sku'', 100), (''tag'', 50)]"

text \<open>The entries of \<^verbatim>\<open>PATTERNS\<close> that \<^verbatim>\<open>validateInput\<close> uses.\<close>

definition PATTERNS_email :: rexp where
  "PATTERNS_email =
     seqs [plus1 (RSym (\<lambda>c. alnum c \<or> oneOf ''._%+-'' c)), lit ''@'',
           plus1 (RSym (\<lambda>c. alnum c \<or> oneOf ''.-'' c)), lit ''.'', repAtLeast 2 (RSym isAlpha)]"

definition PATTERNS_phone :: rexp where
  "PATTERNS_phone =
     seqs [opt (lit ''+''), between 10 20 (RSym (\<lambda>c. isDigit c \<or> isSpace c \<or> oneOf ''-()'' c))]"

definition PATTERNS_url :: rexp where
  "PATTERNS_url =
     seqs [lit ''http'', opt (lit ''s''), lit ''://'', opt (lit ''www.''),
           between 1 256 (RSym (\<lambda>c. alnum c \<or> oneOf ''-@:%._+~#='' c)), lit ''.'',
           between 1 6 (RSym (\<lambda>c. alnum c \<or> oneOf ''()'' c)), RWordB,
           RStar (RSym (\<lambda>c. alnum c \<or> oneOf ''-()@:%_+.~#?&/='' c))]"

definition PATTERNS_shopifyDomain :: rexp where
  "PATTERNS_shopifyDomain =
     seqs [RSym alnum, RStar (RSym (\<lambda>c. alnum c \<or> c = CHR ''-'')), RSym alnum,
           lit ''.myshopify.com'']"

definition PATTERNS_shopifyId :: rexp where
  "PATTERNS_shopifyId =
     seqs [lit ''gid://shopify/'', plus1 (RSym isAlpha), lit ''/'', plus1 (RSym isDigit)]"

definition PATTERNS_numericId :: rexp where
  "PATTERNS_numericId = plus1 (RSym isDigit)"

definition PATTERNS_token :: rexp where
  "PATTERNS_token = repAtLeast 10 (RSym (\<lambda>c. alnum c \<or> oneOf ''_-.'' c))"

text \<open>The control characters \<^verbatim>\<open>[\x00-\x1F\x7F]\<close>.\<close>

definition isControl :: "char \<Rightarrow> bool" where
  "isControl c = ((of_char c :: nat) \<le> 31 \<or> (of_char c :: nat) = 127)"

text \<open>
  \<^verbatim>\<open>options.maxLength || MAX_LENGTHS[type] || MAX_LENGTHS.mediumText\<close>, as the end index of
  \<^verbatim>\<open>slice\<close>. For a type name that \<^verbatim>\<open>MAX_LENGTHS\<close> inherits from \<^verbatim>\<open>Object.prototype\<close> the lookup
  finds a member that is truthy and not a number, and \<^verbatim>\<open>slice(0, member)\<close> is \<^verbatim>\<open>slice(0, 0)\<close>.
\<close>

definition maxLengthFor :: "options \<Rightarrow> string \<Rightarrow> int" where
  "maxLengthFor opts ty =
     orElse (maxLength opts)
       (case MAX_LENGTHS ty of
          Some n \<Rightarrow> n
        | None \<Rightarrow> if inherited ty then 0 else 500)"

text \<open>
  The four lines that follow the numeric parse in the branches number and integer (lines
  138-141 and 145-148).
\<close>

definition boundNumber :: "options \<Rightarrow> jsnum \<Rightarrow> jsval" where
  "boundNumber opts num =
     (if isNaN num then (if allowNull opts then JNull else JNum (Fin 0))
      else if definedAnd (minOpt opts) (numLess num) then JNum (the (minOpt opts))
      else if definedAnd (maxOpt opts) (numGreater num) then JNum (the (maxOpt opts))
      else JNum num)"

text \<open>
  \<^verbatim>\<open>sanitizeInput\<close> (lines 102-198). Type names are compared as strings, so a name outside
  the \<^verbatim>\<open>switch\<close> reaches the default branch. \<open>None\<close> is a \<^verbatim>\<open>TypeError\<close> thrown by
  \<^verbatim>\<open>String\<close>, \<^verbatim>\<open>Number\<close> or \<^verbatim>\<open>parseInt\<close>; only the branches url and json run inside \<^verbatim>\<open>try\<close>.
\<close>

fun sanitizeInput :: "host \<Rightarrow> jsval \<Rightarrow> string \<Rightarrow> options \<Rightarrow> jsval option" where
  "sanitizeInput h input ty opts =
     (if input = JNull \<or> input = JUndefined then Some (if allowNull opts then JNull else JStr [])
      else
        let maxLen = maxLengthFor opts ty
        in
        if ty = ''string'' \<or> ty = ''text'' then
          map_option (\<lambda>s. JStr (slice0 (filter (\<lambda>c. \<not> isControl c) (trim s)) maxLen))
            (toString h input)
        else if ty = ''name'' then
          map_option
            (\<lambda>s. JStr (slice0 (collapseSpaces
                                  (filter (\<lambda>c. \<not> oneOf ''<>\"'' c \<and> c \<noteq> CHR 0x27 \<and> c \<noteq> CHR ''&'')
                                     (trim s))) 100))
            (toString h input)
        else if ty = ''email'' then
          map_option (\<lambda>s. JStr (slice0 (toLowerCase (trim s)) 254)) (toString h input)
        else if ty = ''phone'' then
          map_option
            (\<lambda>s. JStr (slice0 (trim (filter (\<lambda>c. isDigit c \<or> oneOf ''+-()'' c \<or> isSpace c) s)) 20))
            (toString h input)
        else if ty = ''number'' then
          map_option (boundNumber opts) (toNumber h input)
        else if ty = ''integer'' then
          map_option (boundNumber opts) (parseInt10 h input)
        else if ty = ''boolean'' then
          Some (case input of
                  JBool b \<Rightarrow> JBool b
                | JStr s \<Rightarrow> (let lower = toLowerCase s
                             in JBool (lower = ''true'' \<or> lower = ''1'' \<or> lower = ''yes''))
                | _ \<Rightarrow> JBool (toBoolean input))
        else if ty = ''url'' then
          Some (case Option.bind (toString h input) (urlHref h) of
                  Some url \<Rightarrow> JStr (slice0 url maxLen)
                | None \<Rightarrow> (if allowNull opts then JNull else JStr []))
        else if ty = ''shopifyDomain'' then
          map_option
            (\<lambda>s. let domain = toLowerCase (trim s)
                 in if \<not> endsWith domain ''.myshopify.com'' then JStr (domain @ ''.myshopify.com'')
                    else JStr domain)
            (toString h input)
        else if ty = ''token'' then
          map_option (\<lambda>s. JStr (slice0 (filter (\<lambda>c. isWord c \<or> oneOf ''-.'' c) (trim s)) 1000))
            (toString h input)
        else if ty = ''array'' then
          (case input of
             JArr items \<Rightarrow>
               map_option (\<lambda>sanitized. JArr (slice0 sanitized (orElse (maxItems opts) 100)))
                 (those (map (\<lambda>item. sanitizeInput h item
                                         (case itemType opts of
                                            None \<Rightarrow> ''string''
                                          | Some t \<Rightarrow> if t = [] then ''string'' else t)
                                         opts) items))
           | _ \<Rightarrow> Some (JArr []))
        else if ty = ''json'' then
          Some (case input of
                  JStr s \<Rightarrow> (case jsonParse h s of
                               Some v \<Rightarrow> v
                             | None \<Rightarrow> (if allowNull opts then JNull else JObj []))
                | _ \<Rightarrow> input)
        else map_option (\<lambda>s. JStr (slice0 (trim s) maxLen)) (toString h input))"

declare sanitizeInput.simps [simp del]

text \<open>
  \<^verbatim>\<open>validateInput\<close> (lines 203-303). The list \<^verbatim>\<open>errors\<close> grows by \<^verbatim>\<open>push\<close>; each check
  contributes the messages it pushes, in the order of the source. \<^verbatim>\<open>PATTERNS.x.test(value)\<close>
  converts the value to a string first; \<open>None\<close> is the \<^verbatim>\<open>TypeError\<close> of a conversion.
\<close>

definition isEmptyValue :: "jsval \<Rightarrow> bool" where
  "isEmptyValue v = (v = JNull \<or> v = JUndefined \<or> v = JStr [])"

definition validateInput :: "host \<Rightarrow> jsval \<Rightarrow> string \<Rightarrow> options \<Rightarrow> string list option" where
  "validateInput h v ty opts =
     (if required opts \<and> isEmptyValue v then Some [ty @ '' is required'']
      else if \<not> required opts \<and> isEmptyValue v then Some []
      else if ty = ''email'' then
        map_option (\<lambda>s. if \<not> test PATTERNS_email s then [''Invalid email format''] else [])
          (toString h v)
      else if ty = ''phone'' then
        map_option (\<lambda>s. if \<not> test PATTERNS_phone s then [''Invalid phone number format''] else [])
          (toString h v)
      else if ty = ''url'' then
        map_option (\<lambda>s. if \<not> test PATTERNS_url s then [''Invalid URL format''] else [])
          (toString h v)
      else if ty = ''shopifyDomain'' then
        map_option
          (\<lambda>s. if \<not> test PATTERNS_shopifyDomain s then [''Invalid Shopify domain format''] else [])
          (toString h v)
      else if ty = ''shopifyId'' then
        map_option
          (\<lambda>s. if \<not> test PATTERNS_shopifyId s \<and> \<not> test PATTERNS_numericId s
                then [''Invalid Shopify ID format''] else [])
          (toString h v)
      else if ty = ''token'' then
        (case toString h v of
           None \<Rightarrow> None
         | Some s \<Rightarrow>
             map_option
               (\<lambda>len. (if \<not> test PATTERNS_token s then [''Invalid token format''] else [])
                       @ (if numLess len (Fin 10)
                          then [''Token must be at least 10 characters long''] else []))
               (toNumber h (lengthOf v)))
      else if ty = ''number'' then
        map_option
          (\<lambda>num. if isNaN num then [''Must be a valid number'']
                  else
                    (if definedAnd (minOpt opts) (numLess num)
                     then [''Must be at least '' @ numToString h (the (minOpt opts))] else [])
                    @ (if definedAnd (maxOpt opts) (numGreater num)
                       then [''Must be at most '' @ numToString h (the (maxOpt opts))] else []))
          (toNumber h v)
      else if ty = ''string'' then
        Some (case v of
           JStr s \<Rightarrow>
             (if truthy (minLength opts) \<and> int (length s) < the (minLength opts)
              then [''Must be at least '' @ intToString (the (minLength opts)) @ '' characters long'']
              else [])
             @ (if truthy (maxLength opts) \<and> int (length s) > the (maxLength opts)
                then [''Must be at most '' @ intToString (the (maxLength opts)) @ '' characters long'']
                else [])
             @ (if definedAnd (pattern opts) (\<lambda>p. \<not> p s) then [''Invalid format''] else [])
         | _ \<Rightarrow> [''Must be a string''])
      else if ty = ''array'' then
        Some (case v of
           JArr xs \<Rightarrow>
             (if truthy (minItems opts) \<and> int (length xs) < the (minItems opts)
              then [''Must have at least '' @ intToString (the (minItems opts)) @ '' items'']
              else [])
             @ (if truthy (maxItems opts) \<and> int (length xs) > the (maxItems opts)
                then [''Must have at most '' @ intToString (the (maxItems opts)) @ '' items'']
                else [])
         | _ \<Rightarrow> [''Must be an array''])
      else Some [])"

text \<open>
  \<^verbatim>\<open>validateAndSanitizeRequest\<close> (lines 348-373), called with a record. A schema is the list
  \<^verbatim>\<open>Object.entries(schema)\<close>, so its field names are distinct. A rule names its type; an
  absent \<^verbatim>\<open>options\<close> or \<^verbatim>\<open>validation\<close> property is \<open>noOptions\<close>, the default argument of the
  two functions. The loop stops at the first \<^verbatim>\<open>TypeError\<close> (\<open>None\<close>), which leaves the
  function uncaught.
\<close>

record rules =
  ruleType :: string
  options :: options
  validation :: options

fun validateFields ::
  "host \<Rightarrow> (string \<times> jsval) list \<Rightarrow> (string \<times> rules) list \<Rightarrow>
   (string \<times> jsval) list \<Rightarrow> (string \<times> jsval) list \<Rightarrow>
   ((string \<times> jsval) list \<times> (string \<times> jsval) list) option" where
  "validateFields h data [] sanitized errors = Some (sanitized, errors)"
| "validateFields h data ((field, rules) # rest) sanitized errors =
     (case sanitizeInput h (getProp data field) (ruleType rules) (options rules) of
        None \<Rightarrow> None
      | Some sanitizedValue \<Rightarrow>
          (case validateInput h sanitizedValue (ruleType rules) (validation rules) of
             None \<Rightarrow> None
           | Some fieldErrors \<Rightarrow>
               if length fieldErrors > 0
               then validateFields h data rest sanitized
                      (assignProp errors field (JArr (map JStr fieldErrors)))
               else validateFields h data rest (assignProp sanitized field sanitizedValue) errors))"

definition validateAndSanitizeRequest ::
  "host \<Rightarrow> (string \<times> jsval) list \<Rightarrow> (string \<times> rules) list \<Rightarrow> thrown + (string \<times> jsval) list" where
  "validateAndSanitizeRequest h data schema =
     (case validateFields h data schema [] [] of
        None \<Rightarrow> Inl TypeError
      | Some (sanitized, errors) \<Rightarrow>
          if length errors > 0
          then Inl (Thrown (createValidationError ''request_validation''
                              ''Request validation failed'' (JObj errors)))
          else Inr sanitized)"

text \<open>A schema with one required field of type \<^verbatim>\<open>name\<close>, as in the tests of the repository.\<close>

definition nameSchema :: "(string \<times> rules) list" where
  "nameSchema = [(''name'', \<lparr>ruleType = ''name'', options = noOptions,
                              validation = noOptions\<lparr>required := True\<rparr>\<rparr>)]"

text \<open>
  A value is \<open>plain\<close> when no object in it, at the top or inside arrays, has a property of its
  own named \<^verbatim>\<open>toString\<close>.
\<close>

fun plain :: "jsval \<Rightarrow> bool" where
  "plain (JObj ps) = (map_of ps ''toString'' = None)"
| "plain (JArr xs) = list_all plain xs"
| "plain v = True"

section \<open>Fixed-window rate limiter (rateLimiter.js)\<close>

record config =
  windowMs :: int
  maxRequests :: int
  skipSuccessfulRequests :: bool
  skipFailedRequests :: bool

definition apiConfig :: config where
  "apiConfig = \<lparr>windowMs = 60 * 1000, maxRequests = 60,
                 skipSuccessfulRequests = False, skipFailedRequests = False\<rparr>"

definition RATE_LIMITS :: "string \<Rightarrow> config option" where
  "RATE_LIMITS = map_of
     [(''api'', apiConfig),
      (''shopify'', \<lparr>windowMs = 60 * 1000, maxRequests = 40,
                     skipSuccessfulRequests = False, skipFailedRequests = True\<rparr>),
      (''external'', \<lparr>windowMs = 60 * 1000, maxRequests = 100,
                      skipSuccessfulRequests = False, skipFailedRequests = False\<rparr>),
      (''auth'', \<lparr>windowMs = 15 * 60 * 1000, maxRequests = 10,
                  skipSuccessfulRequests = True, skipFailedRequests = False\<rparr>),
      (''token'', \<lparr>windowMs = 5 * 60 * 1000, maxRequests = 5,
                   skipSuccessfulRequests = False, skipFailedRequests = False\<rparr>)]"

text \<open>
  \<^verbatim>\<open>RATE_LIMITS[type] || RATE_LIMITS.api\<close>. For a name that \<^verbatim>\<open>RATE_LIMITS\<close> inherits from
  \<^verbatim>\<open>Object.prototype\<close> the lookup finds a truthy member, so the fallback is skipped; that
  member has none of the four properties, and \<open>None\<close> stands for it: every property read
  from it is \<^verbatim>\<open>undefined\<close>.
\<close>

definition configFor :: "string \<Rightarrow> config option" where
  "configFor ty =
     (case RATE_LIMITS ty of
        Some c \<Rightarrow> Some c
      | None \<Rightarrow> if inherited ty then None else Some apiConfig)"

definition generateKey :: "string \<Rightarrow> string \<Rightarrow> string \<Rightarrow> string" where
  "generateKey identifier endpoint ty = ty @ '':'' @ identifier @ '':'' @ endpoint"

text \<open>
  What \<^verbatim>\<open>getClientIdentifier\<close> reads from a request: the \<^verbatim>\<open>shop\<close> query parameter and the
  two headers, each \<open>None\<close> when absent (\<^verbatim>\<open>get\<close> returns \<^verbatim>\<open>null\<close>).
\<close>

record request =
  shopParam :: "string option"
  xForwardedFor :: "string option"
  xRealIp :: "string option"

definition nonEmpty :: "string option \<Rightarrow> bool" where
  "nonEmpty a = (case a of None \<Rightarrow> False | Some s \<Rightarrow> s \<noteq> [])"

definition getClientIdentifier :: "request \<Rightarrow> string" where
  "getClientIdentifier req =
     (if nonEmpty (shopParam req) then the (shopParam req)
      else if nonEmpty (xForwardedFor req)
           then trim (takeWhile (\<lambda>c. c \<noteq> CHR '','') (the (xForwardedFor req)))
      else if nonEmpty (xRealIp req) then the (xRealIp req)
      else ''unknown'')"

text \<open>
  An entry of the store. \<^verbatim>\<open>resetTime\<close> is \<^verbatim>\<open>now + config.windowMs\<close>, which is NaN when the
  window length is \<^verbatim>\<open>undefined\<close>; \<open>None\<close> stands for NaN.
\<close>

record limitData =
  count :: int
  resetTime :: "int option"
  firstRequest :: int

type_synonym rateLimitStore = "string \<rightharpoonup> limitData"

text \<open>\<^verbatim>\<open>now > data.resetTime\<close>, false when the reset time is NaN.\<close>

definition pastReset :: "int \<Rightarrow> limitData \<Rightarrow> bool" where
  "pastReset t d = definedAnd (resetTime d) (\<lambda>r. t > r)"

definition cleanupExpiredEntries :: "rateLimitStore \<Rightarrow> int \<Rightarrow> rateLimitStore" where
  "cleanupExpiredEntries store t =
     (\<lambda>key. case store key of
               None \<Rightarrow> None
             | Some d \<Rightarrow> if pastReset t d then None else Some d)"

text \<open>
  The object returned by \<^verbatim>\<open>checkRateLimit\<close>. \<open>None\<close> is \<^verbatim>\<open>undefined\<close> for \<^verbatim>\<open>limit\<close>, NaN for
  \<^verbatim>\<open>remaining\<close> and \<^verbatim>\<open>reset\<close>, and \<^verbatim>\<open>null\<close> for \<^verbatim>\<open>retryAfter\<close>.
\<close>

record rateLimitInfo =
  limit :: "int option"
  remaining :: "int option"
  reset :: "int option"
  retryAfter :: "jsnum option"

text \<open>
  What one call of \<^verbatim>\<open>checkRateLimit\<close> reads from its environment: \<^verbatim>\<open>Date.now()\<close> at line 98,
  \<^verbatim>\<open>Math.random()\<close> at line 101 and \<^verbatim>\<open>Date.now()\<close> inside the sweep (line 83).
\<close>

record reading =
  dateNow :: int
  mathRandom :: real
  sweepNow :: int

text \<open>\<^verbatim>\<open>Math.ceil((resetTime - now) / 1000)\<close>.\<close>

definition secondsUntil :: "int option \<Rightarrow> int \<Rightarrow> jsnum" where
  "secondsUntil resetAt t =
     (case resetAt of
        None \<Rightarrow> NaN
      | Some r \<Rightarrow> Fin (real_of_int \<lceil>real_of_int (r - t) / 1000\<rceil>))"

text \<open>\<^verbatim>\<open>count >= config.maxRequests\<close>, false when the maximum is \<^verbatim>\<open>undefined\<close>.\<close>

definition reachedMax :: "config option \<Rightarrow> int \<Rightarrow> bool" where
  "reachedMax config n = definedAnd config (\<lambda>c. n \<ge> maxRequests c)"

text \<open>
  \<^verbatim>\<open>checkRateLimit\<close> (lines 94-147): the store after the call and either the thrown error or
  the returned object. The store keeps the new window also when the call throws.
\<close>

definition checkRateLimit ::
  "rateLimitStore \<Rightarrow> request \<Rightarrow> string \<Rightarrow> string \<Rightarrow> reading \<Rightarrow>
   rateLimitStore \<times> (AppError + rateLimitInfo)" where
  "checkRateLimit store req endpoint ty rd =
     (let config = configFor ty;
          identifier = getClientIdentifier req;
          key = generateKey identifier endpoint ty;
          t = dateNow rd;
          store1 = (if mathRandom rd < 0.01 then cleanupExpiredEntries store (sweepNow rd) else store);
          fresh = \<lparr>count = 0, resetTime = map_option (\<lambda>c. t + windowMs c) config,
                   firstRequest = t\<rparr>;
          (limitData, store2) =
            (case store1 key of
               None \<Rightarrow> (fresh, store1(key \<mapsto> fresh))
             | Some d \<Rightarrow> if pastReset t d then (fresh, store1(key \<mapsto> fresh)) else (d, store1))
      in if reachedMax config (count limitData)
         then (store2, Inl (createRateLimitError (JNum (secondsUntil (resetTime limitData) t))))
         else
           let counted = limitData\<lparr>count := count limitData + 1\<rparr>
           in (store2(key \<mapsto> counted),
               Inr \<lparr>limit = map_option maxRequests config,
                    remaining = map_option (\<lambda>c. max 0 (maxRequests c - count counted)) config,
                    reset = resetTime counted,
                    retryAfter = (if reachedMax config (count counted)
                                  then Some (secondsUntil (resetTime counted) t) else None)\<rparr>))"

text \<open>\<^verbatim>\<open>recordSuccess\<close> and \<^verbatim>\<open>recordFailure\<close> (lines 152-197) share the decrement.\<close>

definition decrementCount :: "rateLimitStore \<Rightarrow> string \<Rightarrow> rateLimitStore" where
  "decrementCount store key =
     (case store key of
        None \<Rightarrow> store
      | Some d \<Rightarrow> if count d > 0 then store(key \<mapsto> d\<lparr>count := count d - 1\<rparr>) else store)"

definition recordSuccess :: "rateLimitStore \<Rightarrow> request \<Rightarrow> string \<Rightarrow> string \<Rightarrow> rateLimitStore" where
  "recordSuccess store req endpoint ty =
     (if definedAnd (configFor ty) skipSuccessfulRequests
      then decrementCount store (generateKey (getClientIdentifier req) endpoint ty)
      else store)"

definition recordFailure :: "rateLimitStore \<Rightarrow> request \<Rightarrow> string \<Rightarrow> string \<Rightarrow> rateLimitStore" where
  "recordFailure store req endpoint ty =
     (if definedAnd (configFor ty) skipFailedRequests
      then decrementCount store (generateKey (getClientIdentifier req) endpoint ty)
      else store)"

subsection \<open>Sequences of calls\<close>

text \<open>
  Consecutive calls of \<^verbatim>\<open>checkRateLimit\<close> for one request, endpoint and class, each with its
  own readings; the store is threaded through and the outcomes are collected.
\<close>

fun checkMany ::
  "rateLimitStore \<Rightarrow> request \<Rightarrow> string \<Rightarrow> string \<Rightarrow> reading list \<Rightarrow>
   rateLimitStore \<times> (AppError + rateLimitInfo) list" where
  "checkMany store req endpoint ty [] = (store, [])"
| "checkMany store req endpoint ty (rd # rds) =
     (let (store1, out) = checkRateLimit store req endpoint ty rd;
          (store2, outs) = checkMany store1 req endpoint ty rds
      in (store2, out # outs))"

text \<open>
  Any sequence of calls of the three exported operations. Only the store matters for the next
  call, so a step keeps the store.
\<close>

datatype call =
    Check request string string reading
  | Success request string string
  | Failure request string string

fun step :: "rateLimitStore \<Rightarrow> call \<Rightarrow> rateLimitStore" where
  "step store (Check req endpoint ty rd) = fst (checkRateLimit store req endpoint ty rd)"
| "step store (Success req endpoint ty) = recordSuccess store req endpoint ty"
| "step store (Failure req endpoint ty) = recordFailure store req endpoint ty"

fun callType :: "call \<Rightarrow> string" where
  "callType (Check req endpoint ty rd) = ty"
| "callType (Success req endpoint ty) = ty"
| "callType (Failure req endpoint ty) = ty"

text \<open>
  A key starts with the class name, up to the first colon. \<open>storeOk\<close> is the invariant of the
  counters of the classes that have a configuration; \<open>windowOpen store key k r\<close> says that the
  entry of \<open>key\<close> has count \<open>k\<close> and reset time \<open>r\<close>; a reading is \<open>quiet\<close> for a window ending
  at \<open>r\<close> when its instant is not past \<open>r\<close> and its sweep, if one happens, does not read a
  clock past \<open>r\<close>.
\<close>

definition classOfKey :: "string \<Rightarrow> string" where
  "classOfKey key = takeWhile (\<lambda>c. c \<noteq> CHR '':'') key"

definition storeOk :: "rateLimitStore \<Rightarrow> bool" where
  "storeOk store =
     (\<forall>key d c. store key = Some d \<and> configFor (classOfKey key) = Some c \<longrightarrow>
        0 \<le> count d \<and> count d \<le> maxRequests c)"

definition windowOpen :: "rateLimitStore \<Rightarrow> string \<Rightarrow> int \<Rightarrow> int \<Rightarrow> bool" where
  "windowOpen store key k r =
     (\<exists>d. store key = Some d \<and> count d = k \<and> resetTime d = Some r)"

definition quiet :: "reading \<Rightarrow> int \<Rightarrow> bool" where
  "quiet rd r = (dateNow rd \<le> r \<and> (mathRandom rd < 0.01 \<longrightarrow> sweepNow rd \<le> r))"

definition keyOf :: "request \<Rightarrow> string \<Rightarrow> string \<Rightarrow> string" where
  "keyOf req endpoint ty = generateKey (getClientIdentifier req) endpoint ty"

text \<open>A request and readings used to run the limiter on concrete inputs.\<close>

definition exampleRequest :: request where
  "exampleRequest = \<lparr>shopParam = Some ''mystore.myshopify.com'', xForwardedFor = None, xRealIp = None\<rparr>"

definition readingAt :: "int \<Rightarrow> reading" where
  "readingAt t = \<lparr>dateNow = t, mathRandom = 1 / 2, sweepNow = t\<rparr>"

section \<open>Token bucket for outbound Shopify calls (rateLimiter.js, ShopifyRateLimiter)\<close>

text \<open>
  A bucket is the object literal created in \<^verbatim>\<open>waitForAvailability\<close>. JavaScript numbers are
  modelled as exact reals: timestamps are integral milliseconds (\<^verbatim>\<open>Date.now()\<close>), and on integral
  timestamps the expressions below are computed without rounding error by IEEE doubles too.
  The map \<^verbatim>\<open>this.buckets\<close> is a partial map from the key string to the bucket.
\<close>

record bucket =
  tokens :: real
  lastRefill :: int
  maxTokens :: real
  refillRate :: real

type_synonym buckets = "string \<rightharpoonup> bucket"

text \<open>What the promise resolves to, \<^verbatim>\<open>{ remainingTokens, maxTokens }\<close>.\<close>

record availability =
  remainingTokens :: real
  availMaxTokens :: real

text \<open>
  The two clock readings of one call: \<^verbatim>\<open>Date.now()\<close> inside the literal of a new bucket and the
  later \<^verbatim>\<open>const now = Date.now()\<close>.
\<close>

record clock =
  createdAt :: int
  now :: int

definition bucketKey :: "string \<Rightarrow> string" where
  "bucketKey shop = ''shopify:'' @ shop"

definition freshBucket :: "int \<Rightarrow> bucket" where
  "freshBucket t = \<lparr>tokens = 40, lastRefill = t, maxTokens = 40, refillRate = 2\<rparr>"

text \<open>Lines 247-257: look the bucket up, create it when absent.\<close>

definition getBucket :: "buckets \<Rightarrow> string \<Rightarrow> clock \<Rightarrow> bucket" where
  "getBucket bs shop ck =
     (case bs (bucketKey shop) of
        None \<Rightarrow> freshBucket (createdAt ck)
      | Some b \<Rightarrow> b)"

text \<open>Lines 260-267: refill by the floored number of tokens, only when it is positive.\<close>

definition refill :: "bucket \<Rightarrow> int \<Rightarrow> bucket" where
  "refill b t =
     (let timePassed = real_of_int (t - lastRefill b) / 1000;
          tokensToAdd = \<lfloor>timePassed * refillRate b\<rfloor>
      in if tokensToAdd > 0
         then b\<lparr>tokens := min (maxTokens b) (tokens b + real_of_int tokensToAdd), lastRefill := t\<rparr>
         else b)"

text \<open>
  Lines 270-287: the wait (returned as the number of milliseconds handed to \<^verbatim>\<open>setTimeout\<close>,
  \<open>None\<close> when the call does not suspend) and the bucket after the branch. Every bucket that
  the code creates has \<open>refillRate = 2\<close>, so the division is by a positive number.
\<close>

definition consume :: "bucket \<Rightarrow> real \<Rightarrow> int option \<times> bucket" where
  "consume b requestCost =
     (if tokens b < requestCost
      then (let waitTime = \<lceil>(requestCost - tokens b) / refillRate b * 1000\<rceil>
            in (Some waitTime, b\<lparr>tokens := min (maxTokens b) (tokens b + requestCost)\<rparr>))
      else (None, b\<lparr>tokens := tokens b - requestCost\<rparr>))"

text \<open>
  The whole method, run without interleaving: the store after the call, the time waited and the
  resolved value.
\<close>

definition waitForAvailability ::
  "buckets \<Rightarrow> string \<Rightarrow> real \<Rightarrow> clock \<Rightarrow> buckets \<times> int option \<times> availability" where
  "waitForAvailability bs shop requestCost ck =
     (let b0 = getBucket bs shop ck;
          b1 = refill b0 (now ck);
          (waited, b2) = consume b1 requestCost
      in (bs(bucketKey shop \<mapsto> b2), waited,
          \<lparr>remainingTokens = tokens b2, availMaxTokens = maxTokens b2\<rparr>))"

text \<open>A sequence of calls of \<^verbatim>\<open>waitForAvailability\<close>, each with its shop, cost and clock readings.\<close>

fun runAcquires :: "buckets \<Rightarrow> (string \<times> real \<times> clock) list \<Rightarrow> buckets" where
  "runAcquires bs [] = bs"
| "runAcquires bs ((shop, requestCost, ck) # rest) =
     runAcquires (fst (waitForAvailability bs shop requestCost ck)) rest"

definition bucketsOk :: "buckets \<Rightarrow> bool" where
  "bucketsOk bs = (\<forall>key b. bs key = Some b \<longrightarrow> 0 \<le> tokens b \<and> tokens b \<le> maxTokens b)"

text \<open>
  The acquire operation as the specification words it: the refill amount, the tokens available
  after the refill, the wait and the tokens left.
\<close>

definition spec_acquire ::
  "buckets \<Rightarrow> string \<Rightarrow> real \<Rightarrow> clock \<Rightarrow> buckets \<times> int option \<times> availability" where
  "spec_acquire bs shop cost ck =
     (let b = (case bs (''shopify:'' @ shop) of
                 Some b \<Rightarrow> b
               | None \<Rightarrow> \<lparr>tokens = 40, lastRefill = createdAt ck, maxTokens = 40, refillRate = 2\<rparr>);
          elapsedSeconds = real_of_int (now ck - lastRefill b) / 1000;
          amount = \<lfloor>elapsedSeconds * refillRate b\<rfloor>;
          available = (if 0 < amount then min (maxTokens b) (tokens b + real_of_int amount)
                       else tokens b);
          refilledAt = (if 0 < amount then now ck else lastRefill b);
          waitMs = (if available < cost
                    then Some \<lceil>(cost - available) / refillRate b * 1000\<rceil> else None);
          left = (if available < cost then min (maxTokens b) (available + cost)
                  else available - cost)
      in (bs(''shopify:'' @ shop \<mapsto>
               \<lparr>tokens = left, lastRefill = refilledAt, maxTokens = maxTokens b,
                refillRate = refillRate b\<rparr>),
          waitMs,
          \<lparr>remainingTokens = left, availMaxTokens = maxTokens b\<rparr>))"

section \<open>Properties of the sanitizer and the validator\<close>

lemma number_branch:
  "input \<noteq> JNull \<Longrightarrow> input \<noteq> JUndefined \<Longrightarrow>
   sanitizeInput h input ''number'' opts = map_option (boundNumber opts) (toNumber h input)"
  by (simp add: sanitizeInput.simps Let_def)

lemma integer_branch:
  "input \<noteq> JNull \<Longrightarrow> input \<noteq> JUndefined \<Longrightarrow>
   sanitizeInput h input ''integer'' opts = map_option (boundNumber opts) (parseInt10 h input)"
  by (simp add: sanitizeInput.simps Let_def)

lemma json_branch:
  "input \<noteq> JNull \<Longrightarrow> input \<noteq> JUndefined \<Longrightarrow>
   sanitizeInput h input ''json'' opts =
     Some (case input of
        JStr s \<Rightarrow> (case jsonParse h s of
                     Some v \<Rightarrow> v
                   | None \<Rightarrow> (if allowNull opts then JNull else JObj []))
      | _ \<Rightarrow> input)"
  by (simp add: sanitizeInput.simps Let_def)

lemma array_branch:
  "input \<noteq> JNull \<Longrightarrow> input \<noteq> JUndefined \<Longrightarrow> (\<forall>items. input \<noteq> JArr items) \<Longrightarrow>
   sanitizeInput h input ''array'' opts = Some (JArr [])"
  by (cases input) (simp_all add: sanitizeInput.simps Let_def)

lemma url_branch:
  "input \<noteq> JNull \<Longrightarrow> input \<noteq> JUndefined \<Longrightarrow>
   sanitizeInput h input ''url'' opts =
     Some (case Option.bind (toString h input) (urlHref h) of
             Some url \<Rightarrow> JStr (slice0 url (maxLengthFor opts ''url''))
           | None \<Rightarrow> (if allowNull opts then JNull else JStr []))"
  by (simp add: sanitizeInput.simps Let_def)

lemma those_map_defined: "\<forall>x\<in>set xs. f x \<noteq> None \<Longrightarrow> those (map f xs) \<noteq> None"
  by (induction xs) (auto split: option.splits)

lemma toString_plain: "plain v \<Longrightarrow> toString h v \<noteq> None"
proof (induction h v rule: toString.induct)
  case (6 h xs)
  have "\<forall>x\<in>set xs. (if x = JUndefined \<or> x = JNull then Some [] else toString h x) \<noteq> None"
    using 6 by (auto simp: list_all_iff)
  then have "those (map (\<lambda>x. if x = JUndefined \<or> x = JNull then Some [] else toString h x) xs) \<noteq> None"
    by (rule those_map_defined)
  then show ?case by simp
qed simp_all

lemma toNumber_plain: "plain v \<Longrightarrow> toNumber h v \<noteq> None"
  using toString_plain[of v h] by (cases v) (auto simp: toNumber_def simp del: plain.simps)

lemma parseInt10_plain: "plain v \<Longrightarrow> parseInt10 h v \<noteq> None"
  using toString_plain[of v h] by (simp add: parseInt10_def)

lemma sanitize_plain: "plain input \<Longrightarrow> sanitizeInput h input ty opts \<noteq> None"
proof (induction h input ty opts rule: sanitizeInput.induct)
  case (1 h input ty opts)
  note ts = toString_plain[OF 1(2), of h] and tn = toNumber_plain[OF 1(2), of h]
    and ti = parseInt10_plain[OF 1(2), of h]
  show ?case
  proof (cases "ty = ''array'' \<and> (\<exists>items. input = JArr items)")
    case False
    then show ?thesis using ts tn ti
      by (subst sanitizeInput.simps) (auto simp: Let_def split: jsval.splits)
  next
    case True
    then obtain items where it: "input = JArr items" and ty: "ty = ''array''" by blast
    let ?t = "case itemType opts of None \<Rightarrow> ''string'' | Some t \<Rightarrow> if t = [] then ''string'' else t"
    have "\<forall>item\<in>set items. sanitizeInput h item ?t opts \<noteq> None"
    proof
      fix item assume m: "item \<in> set items"
      then have p: "plain item" using 1(2) it by (simp add: list_all_iff)
      show "sanitizeInput h item ?t opts \<noteq> None"
        by (rule 1(1)[of "maxLengthFor opts ty" items item]) (simp_all add: it ty m p)
    qed
    then have "those (map (\<lambda>item. sanitizeInput h item ?t opts) items) \<noteq> None"
      by (rule those_map_defined)
    then show ?thesis
      by (subst sanitizeInput.simps) (simp add: it ty Let_def)
  qed
qed


lemma stringToNumber_examples:
  "stringToNumber ''123'' = Fin 123" "stringToNumber ''50'' = Fin 50" "stringToNumber ''300'' = Fin 300"
  "stringToNumber ''Infinity'' = PosInf" "stringToNumber ''-Infinity'' = NegInf"
  "stringToNumber ''abc'' = NaN"
  by (simp_all add: stringToNumber_def trim_def trimStart_def trimEnd_def isSpace_def
        parseUnsignedDecimal_def isExpChar_def isDigit_def inRange_def digitsVal_def digitVal_def
        numNeg_def)

text \<open>
  C7, amended. With type \<^verbatim>\<open>number\<close>, \<^verbatim>\<open>null\<close> and \<^verbatim>\<open>undefined\<close> are returned as \<^verbatim>\<open>''\<close>
  (\<^verbatim>\<open>null\<close> with \<^verbatim>\<open>allowNull\<close>) before anything is parsed. Every other input is converted
  with \<^verbatim>\<open>Number\<close>; when the conversion gives a number, the result is \<open>0\<close> (\<^verbatim>\<open>null\<close> with
  \<^verbatim>\<open>allowNull\<close>) if that number is NaN; otherwise it is \<^verbatim>\<open>min\<close> if \<^verbatim>\<open>min\<close> is supplied and the
  number is below it; otherwise \<^verbatim>\<open>max\<close> if \<^verbatim>\<open>max\<close> is supplied and the number is above it;
  otherwise the number itself. For a finite number and finite bounds \<open>lo \<le> hi\<close> this is the
  number clamped to \<open>[lo, hi]\<close>; \<^verbatim>\<open>Infinity\<close> is cut down to a finite \<^verbatim>\<open>max\<close> and \<^verbatim>\<open>-Infinity\<close>
  raised to a finite \<^verbatim>\<open>min\<close>. In particular \<^verbatim>\<open>sanitizeInput('123', 'number', {min: 100, max: 200})\<close>
  is \<open>123\<close>, \<^verbatim>\<open>sanitizeInput('50', 'number', {min: 100})\<close> is \<open>100\<close>,
  \<^verbatim>\<open>sanitizeInput('300', 'number', {max: 200})\<close> is \<open>200\<close>, as is
  \<^verbatim>\<open>sanitizeInput('Infinity', 'number', {max: 200})\<close>, and \<^verbatim>\<open>sanitizeInput('abc', 'number')\<close>
  is \<open>0\<close>.
\<close>

theorem number_clamped:
  "sanitizeInput h JNull ''number'' opts = Some (if allowNull opts then JNull else JStr [])
   \<and> sanitizeInput h JUndefined ''number'' opts = Some (if allowNull opts then JNull else JStr [])
   \<and> (input \<noteq> JNull \<and> input \<noteq> JUndefined \<longrightarrow>
        (\<forall>num. toNumber h input = Some num \<longrightarrow>
           (num = NaN \<longrightarrow>
              sanitizeInput h input ''number'' opts
                = Some (if allowNull opts then JNull else JNum (Fin 0)))
         \<and> (num \<noteq> NaN \<longrightarrow>
              (\<forall>lo. minOpt opts = Some lo \<and> numLess num lo \<longrightarrow>
                 sanitizeInput h input ''number'' opts = Some (JNum lo))
            \<and> (\<forall>hi. (\<forall>lo. minOpt opts = Some lo \<longrightarrow> \<not> numLess num lo)
                     \<and> maxOpt opts = Some hi \<and> numLess hi num \<longrightarrow>
                 sanitizeInput h input ''number'' opts = Some (JNum hi))
            \<and> ((\<forall>lo. minOpt opts = Some lo \<longrightarrow> \<not> numLess num lo)
                 \<and> (\<forall>hi. maxOpt opts = Some hi \<longrightarrow> \<not> numLess hi num) \<longrightarrow>
                 sanitizeInput h input ''number'' opts = Some (JNum num))))
      \<and> (\<forall>x lo hi. toNumber h input = Some (Fin x) \<and> minOpt opts = Some (Fin lo)
                     \<and> maxOpt opts = Some (Fin hi) \<and> lo \<le> hi \<longrightarrow>
             sanitizeInput h input ''number'' opts = Some (JNum (Fin (max lo (min hi x)))))
      \<and> (\<forall>hi. toNumber h input = Some PosInf \<and> minOpt opts = None \<and> maxOpt opts = Some (Fin hi) \<longrightarrow>
             sanitizeInput h input ''number'' opts = Some (JNum (Fin hi)))
      \<and> (\<forall>lo. toNumber h input = Some NegInf \<and> minOpt opts = Some (Fin lo) \<longrightarrow>
             sanitizeInput h input ''number'' opts = Some (JNum (Fin lo))))
   \<and> sanitizeInput h (JStr ''123'') ''number''
        (noOptions\<lparr>minOpt := Some (Fin 100), maxOpt := Some (Fin 200)\<rparr>) = Some (JNum (Fin 123))
   \<and> sanitizeInput h (JStr ''50'') ''number'' (noOptions\<lparr>minOpt := Some (Fin 100)\<rparr>)
        = Some (JNum (Fin 100))
   \<and> sanitizeInput h (JStr ''300'') ''number'' (noOptions\<lparr>maxOpt := Some (Fin 200)\<rparr>)
        = Some (JNum (Fin 200))
   \<and> sanitizeInput h (JStr ''Infinity'') ''number'' (noOptions\<lparr>maxOpt := Some (Fin 200)\<rparr>)
        = Some (JNum (Fin 200))
   \<and> sanitizeInput h (JStr ''-Infinity'') ''number'' (noOptions\<lparr>minOpt := Some (Fin 100)\<rparr>)
        = Some (JNum (Fin 100))
   \<and> sanitizeInput h (JStr ''abc'') ''number'' noOptions = Some (JNum (Fin 0))"
proof -
  have n: "sanitizeInput h JNull ''number'' opts = Some (if allowNull opts then JNull else JStr [])"
          "sanitizeInput h JUndefined ''number'' opts = Some (if allowNull opts then JNull else JStr [])"
    by (simp_all add: sanitizeInput.simps)
  have gen: "input \<noteq> JNull \<and> input \<noteq> JUndefined \<longrightarrow>
        (\<forall>num. toNumber h input = Some num \<longrightarrow>
           (num = NaN \<longrightarrow>
              sanitizeInput h input ''number'' opts
                = Some (if allowNull opts then JNull else JNum (Fin 0)))
         \<and> (num \<noteq> NaN \<longrightarrow>
              (\<forall>lo. minOpt opts = Some lo \<and> numLess num lo \<longrightarrow>
                 sanitizeInput h input ''number'' opts = Some (JNum lo))
            \<and> (\<forall>hi. (\<forall>lo. minOpt opts = Some lo \<longrightarrow> \<not> numLess num lo)
                     \<and> maxOpt opts = Some hi \<and> numLess hi num \<longrightarrow>
                 sanitizeInput h input ''number'' opts = Some (JNum hi))
            \<and> ((\<forall>lo. minOpt opts = Some lo \<longrightarrow> \<not> numLess num lo)
                 \<and> (\<forall>hi. maxOpt opts = Some hi \<longrightarrow> \<not> numLess hi num) \<longrightarrow>
                 sanitizeInput h input ''number'' opts = Some (JNum num))))
      \<and> (\<forall>x lo hi. toNumber h input = Some (Fin x) \<and> minOpt opts = Some (Fin lo)
                     \<and> maxOpt opts = Some (Fin hi) \<and> lo \<le> hi \<longrightarrow>
             sanitizeInput h input ''number'' opts = Some (JNum (Fin (max lo (min hi x)))))
      \<and> (\<forall>hi. toNumber h input = Some PosInf \<and> minOpt opts = None \<and> maxOpt opts = Some (Fin hi) \<longrightarrow>
             sanitizeInput h input ''number'' opts = Some (JNum (Fin hi)))
      \<and> (\<forall>lo. toNumber h input = Some NegInf \<and> minOpt opts = Some (Fin lo) \<longrightarrow>
             sanitizeInput h input ''number'' opts = Some (JNum (Fin lo)))"
  proof (intro impI, elim conjE)
    assume a: "input \<noteq> JNull" "input \<noteq> JUndefined"
    note u = number_branch[OF a, of h opts]
    show "(\<forall>num. toNumber h input = Some num \<longrightarrow>
           (num = NaN \<longrightarrow>
              sanitizeInput h input ''number'' opts
                = Some (if allowNull opts then JNull else JNum (Fin 0)))
         \<and> (num \<noteq> NaN \<longrightarrow>
              (\<forall>lo. minOpt opts = Some lo \<and> numLess num lo \<longrightarrow>
                 sanitizeInput h input ''number'' opts = Some (JNum lo))
            \<and> (\<forall>hi. (\<forall>lo. minOpt opts = Some lo \<longrightarrow> \<not> numLess num lo)
                     \<and> maxOpt opts = Some hi \<and> numLess hi num \<longrightarrow>
                 sanitizeInput h input ''number'' opts = Some (JNum hi))
            \<and> ((\<forall>lo. minOpt opts = Some lo \<longrightarrow> \<not> numLess num lo)
                 \<and> (\<forall>hi. maxOpt opts = Some hi \<longrightarrow> \<not> numLess hi num) \<longrightarrow>
                 sanitizeInput h input ''number'' opts = Some (JNum num))))
      \<and> (\<forall>x lo hi. toNumber h input = Some (Fin x) \<and> minOpt opts = Some (Fin lo)
                     \<and> maxOpt opts = Some (Fin hi) \<and> lo \<le> hi \<longrightarrow>
             sanitizeInput h input ''number'' opts = Some (JNum (Fin (max lo (min hi x)))))
      \<and> (\<forall>hi. toNumber h input = Some PosInf \<and> minOpt opts = None \<and> maxOpt opts = Some (Fin hi) \<longrightarrow>
             sanitizeInput h input ''number'' opts = Some (JNum (Fin hi)))
      \<and> (\<forall>lo. toNumber h input = Some NegInf \<and> minOpt opts = Some (Fin lo) \<longrightarrow>
             sanitizeInput h input ''number'' opts = Some (JNum (Fin lo)))"
      unfolding u
      by (auto simp: boundNumber_def isNaN_def definedAnd_def numGreater_def min_def max_def
               split: option.splits)
  qed
  have ex: "sanitizeInput h (JStr ''123'') ''number''
        (noOptions\<lparr>minOpt := Some (Fin 100), maxOpt := Some (Fin 200)\<rparr>) = Some (JNum (Fin 123))"
     "sanitizeInput h (JStr ''50'') ''number'' (noOptions\<lparr>minOpt := Some (Fin 100)\<rparr>)
        = Some (JNum (Fin 100))"
     "sanitizeInput h (JStr ''300'') ''number'' (noOptions\<lparr>maxOpt := Some (Fin 200)\<rparr>)
        = Some (JNum (Fin 200))"
     "sanitizeInput h (JStr ''Infinity'') ''number'' (noOptions\<lparr>maxOpt := Some (Fin 200)\<rparr>)
        = Some (JNum (Fin 200))"
     "sanitizeInput h (JStr ''-Infinity'') ''number'' (noOptions\<lparr>minOpt := Some (Fin 100)\<rparr>)
        = Some (JNum (Fin 100))"
     "sanitizeInput h (JStr ''abc'') ''number'' noOptions = Some (JNum (Fin 0))"
    by (simp_all add: number_branch toNumber_def stringToNumber_examples boundNumber_def isNaN_def
          definedAnd_def numGreater_def noOptions_def)
  show ?thesis using n gen ex by blast
qed

theorem number_clamped_witness:
  "sanitizeInput exampleHost JNull ''number'' (noOptions\<lparr>minOpt := Some (Fin 100)\<rparr>) = Some (JStr [])
   \<and> sanitizeInput exampleHost (JStr ''50'') ''number''
       (noOptions\<lparr>minOpt := Some (Fin 100), maxOpt := Some (Fin 200)\<rparr>) = Some (JNum (Fin 100))
   \<and> sanitizeInput exampleHost (JBool True) ''number'' (noOptions\<lparr>maxOpt := Some (Fin 200)\<rparr>)
       = Some (JNum (Fin 1))"
proof -
  have n50: "toNumber exampleHost (JStr ''50'') = Some (Fin 50)"
    by (simp add: toNumber_def stringToNumber_examples)
  have t: "toNumber exampleHost (JBool True) = Some (Fin 1)" by (simp add: toNumber_def)
  show ?thesis
    using number_clamped [of exampleHost "noOptions\<lparr>minOpt := Some (Fin 100)\<rparr>" JNull]
          number_clamped [of exampleHost
                              "noOptions\<lparr>minOpt := Some (Fin 100), maxOpt := Some (Fin 200)\<rparr>"
                              "JStr ''50''"]
          number_clamped [of exampleHost "noOptions\<lparr>maxOpt := Some (Fin 200)\<rparr>" "JBool True"]
    by (simp add: n50 t noOptions_def)
qed

text \<open>
  C7 as stated fails for the two inputs that are not numeric and never reach the parse:
  \<^verbatim>\<open>sanitizeInput(undefined, 'number')\<close> is \<^verbatim>\<open>''\<close> and not \<open>0\<close>, and
  \<^verbatim>\<open>sanitizeInput(null, 'number', {min: 100})\<close> is \<^verbatim>\<open>''\<close>, which is not within the bounds.
\<close>

theorem number_of_undefined_not_zero:
  "sanitizeInput exampleHost JUndefined ''number'' noOptions = Some (JStr [])
   \<and> sanitizeInput exampleHost JUndefined ''number'' noOptions \<noteq> Some (JNum (Fin 0))
   \<and> sanitizeInput exampleHost JNull ''number'' (noOptions\<lparr>minOpt := Some (Fin 100)\<rparr>) = Some (JStr [])"
  by (simp add: sanitizeInput.simps noOptions_def)

lemma errorHandler_plain: "plain input \<Longrightarrow> errorHandler_sanitizeInput h input ty \<noteq> None"
  using toString_plain [of input h] toNumber_plain [of input h]
  by (auto simp: errorHandler_sanitizeInput_def)

text \<open>
  C1, amended. For every type name and every options object, \<^verbatim>\<open>sanitizeInput\<close> of \<^verbatim>\<open>null\<close> or
  \<^verbatim>\<open>undefined\<close> returns \<^verbatim>\<open>''\<close>, or \<^verbatim>\<open>null\<close> when \<^verbatim>\<open>allowNull\<close> is set, whatever the type: the
  null check comes before the dispatch on the type. The helper of the same name in
  errorHandler.js returns \<^verbatim>\<open>null\<close> for both. The type-specific defaults are results for other
  inputs: \<open>0\<close> when \<^verbatim>\<open>Number\<close> or \<^verbatim>\<open>parseInt\<close> gives NaN, \<^verbatim>\<open>{}\<close> for a string that \<^verbatim>\<open>JSON.parse\<close>
  rejects, \<^verbatim>\<open>''\<close> for a value that is not a URL (\<^verbatim>\<open>null\<close> in these cases when \<^verbatim>\<open>allowNull\<close> is
  set), and \<^verbatim>\<open>[]\<close> for an \<^verbatim>\<open>array\<close>-typed input that is not an array. Neither function
  throws for an input in which no object, at the top or inside arrays, has a property of its
  own named \<^verbatim>\<open>toString\<close>.
\<close>

theorem null_input_sanitized:
  "sanitizeInput h JNull ty opts = Some (if allowNull opts then JNull else JStr [])
   \<and> sanitizeInput h JUndefined ty opts = Some (if allowNull opts then JNull else JStr [])
   \<and> errorHandler_sanitizeInput h JNull ty = Some JNull
   \<and> errorHandler_sanitizeInput h JUndefined ty = Some JNull
   \<and> (input \<noteq> JNull \<and> input \<noteq> JUndefined \<longrightarrow>
        (toNumber h input = Some NaN \<longrightarrow>
           sanitizeInput h input ''number'' opts
             = Some (if allowNull opts then JNull else JNum (Fin 0)))
      \<and> (parseInt10 h input = Some NaN \<longrightarrow>
           sanitizeInput h input ''integer'' opts
             = Some (if allowNull opts then JNull else JNum (Fin 0)))
      \<and> (\<forall>s. input = JStr s \<and> jsonParse h s = None \<longrightarrow>
           sanitizeInput h input ''json'' opts = Some (if allowNull opts then JNull else JObj []))
      \<and> (Option.bind (toString h input) (urlHref h) = None \<longrightarrow>
           sanitizeInput h input ''url'' opts = Some (if allowNull opts then JNull else JStr []))
      \<and> ((\<forall>items. input \<noteq> JArr items) \<longrightarrow>
           sanitizeInput h input ''array'' opts = Some (JArr [])))
   \<and> (plain input \<longrightarrow>
        (\<exists>v. sanitizeInput h input ty opts = Some v)
        \<and> (\<exists>v. errorHandler_sanitizeInput h input ty = Some v))"
  using number_branch [of input h opts] integer_branch [of input h opts]
        json_branch [of input h opts] array_branch [of input h opts]
        url_branch [of input h opts] sanitize_plain [of input h ty opts]
        errorHandler_plain [of input h ty]
  by (auto simp: sanitizeInput.simps errorHandler_sanitizeInput_def boundNumber_def isNaN_def
           Let_def)

theorem null_input_sanitized_witness:
  "sanitizeInput exampleHost JNull ''array'' noOptions = Some (JStr [])
   \<and> sanitizeInput exampleHost JUndefined ''boolean'' (noOptions\<lparr>allowNull := True\<rparr>) = Some JNull
   \<and> sanitizeInput exampleHost (JStr ''{'') ''json'' noOptions = Some (JObj [])
   \<and> sanitizeInput exampleHost (JStr ''not a url'') ''url'' noOptions = Some (JStr [])
   \<and> sanitizeInput exampleHost (JBool True) ''array'' noOptions = Some (JArr [])
   \<and> (\<exists>v. sanitizeInput exampleHost (JArr [JObj [(''a'', JNum (Fin 1))], JStr ''b'']) ''array''
             (noOptions\<lparr>itemType := Some ''name''\<rparr>) = Some v)"
  using null_input_sanitized [of exampleHost "''array''" noOptions "JBool True"]
        null_input_sanitized [of exampleHost "''url''" noOptions "JStr ''not a url''"]
        null_input_sanitized [of exampleHost "''boolean''" "noOptions\<lparr>allowNull := True\<rparr>" "JStr ''{''"]
        null_input_sanitized [of exampleHost "''json''" noOptions "JStr ''{''"]
        null_input_sanitized [of exampleHost "''array''" "noOptions\<lparr>itemType := Some ''name''\<rparr>"
                                 "JArr [JObj [(''a'', JNum (Fin 1))], JStr ''b'']"]
  by (simp add: noOptions_def exampleHost_def)

text \<open>
  C1 as stated fails for the types with a default of their own:
  \<^verbatim>\<open>sanitizeInput(null, 'number')\<close> is \<^verbatim>\<open>''\<close> and not \<open>0\<close>.
\<close>

theorem null_number_not_zero:
  "sanitizeInput exampleHost JNull ''number'' noOptions = Some (JStr [])
   \<and> sanitizeInput exampleHost JNull ''number'' noOptions \<noteq> Some (JNum (Fin 0))"
  by (simp add: sanitizeInput.simps noOptions_def)

text \<open>
  An object with a property of its own named \<^verbatim>\<open>toString\<close> that is not a function cannot be
  converted: \<^verbatim>\<open>String\<close>, \<^verbatim>\<open>Number\<close> and \<^verbatim>\<open>parseInt\<close> throw a \<^verbatim>\<open>TypeError\<close>.
\<close>

lemma own_toString_throws:
  "sanitizeInput h (JObj [(''toString'', JNum (Fin 1))]) ''string'' opts = None"
  "sanitizeInput h (JObj [(''toString'', JNum (Fin 1))]) ''number'' opts = None"
  "sanitizeInput h (JObj [(''toString'', JNum (Fin 1))]) ''integer'' opts = None"
  by (simp_all add: sanitizeInput.simps Let_def toNumber_def parseInt10_def)

text \<open>
  C6. For every type and every options object, \<^verbatim>\<open>validateInput\<close> of \<^verbatim>\<open>null\<close>, \<^verbatim>\<open>undefined\<close> or
  the empty string returns the one-element list \<open>[type + ' is required']\<close>, whose message
  contains \<^verbatim>\<open>required\<close>, when \<^verbatim>\<open>required\<close> is set, and the empty list when \<^verbatim>\<open>required\<close> is
  not set or false. In both cases no check of the type is run: the result does not depend on
  the type beyond the name in the message.
\<close>

theorem required_short_circuit:
  assumes "v = JNull \<or> v = JUndefined \<or> v = JStr []"
  shows "(required opts \<longrightarrow>
            validateInput h v ty opts = Some [ty @ '' is required'']
            \<and> (\<exists>a b. ty @ '' is required'' = a @ ''required'' @ b))
         \<and> (\<not> required opts \<longrightarrow> validateInput h v ty opts = Some [])"
proof -
  have e: "isEmptyValue v" using assms by (simp add: isEmptyValue_def)
  have "ty @ '' is required'' = (ty @ '' is '') @ ''required'' @ []" by simp
  then have "\<exists>a b. ty @ '' is required'' = a @ ''required'' @ b" by blast
  then show ?thesis using e by (simp add: validateInput_def)
qed

theorem required_short_circuit_witness:
  "validateInput exampleHost (JStr []) ''string'' (noOptions\<lparr>required := True\<rparr>)
     = Some [''string is required'']
   \<and> validateInput exampleHost (JStr []) ''string'' (noOptions\<lparr>required := False\<rparr>) = Some []
   \<and> validateInput exampleHost JNull ''email'' noOptions = Some []"
  using required_short_circuit [of "JStr []" "noOptions\<lparr>required := True\<rparr>" exampleHost "''string''"]
        required_short_circuit [of "JStr []" "noOptions\<lparr>required := False\<rparr>" exampleHost "''string''"]
        required_short_circuit [of JNull noOptions exampleHost "''email''"]
  by (simp add: noOptions_def)

lemma of_char_lowerChar:
  "(of_char (lowerChar c) :: nat) =
     (if (65 \<le> (of_char c :: nat) \<and> (of_char c :: nat) \<le> 90)
         \<or> (192 \<le> (of_char c :: nat) \<and> (of_char c :: nat) \<le> 222 \<and> (of_char c :: nat) \<noteq> 215)
      then of_char c + 32 else of_char c)"
  by (auto simp: lowerChar_def Let_def)

lemma lowerChar_idem: "lowerChar (lowerChar c) = lowerChar c"
proof -
  have "(of_char (lowerChar (lowerChar c)) :: nat) = of_char (lowerChar c)"
    by (simp add: of_char_lowerChar)
  then show ?thesis by (metis char_of_char)
qed

lemma isSpace_lowerChar: "isSpace (lowerChar c) = isSpace c"
  by (auto simp: isSpace_def of_char_lowerChar)

lemma toLowerCase_idem: "toLowerCase (toLowerCase s) = toLowerCase s"
  by (simp add: toLowerCase_def lowerChar_idem)

lemma trimEnd_prefix: "\<exists>t. x = trimEnd x @ t"
proof -
  have "rev x = takeWhile isSpace (rev x) @ dropWhile isSpace (rev x)" by simp
  then have "x = rev (dropWhile isSpace (rev x)) @ rev (takeWhile isSpace (rev x))"
    by (metis rev_append rev_rev_ident)
  then show ?thesis unfolding trimEnd_def by blast
qed

lemma trim_head: "trim s = [] \<or> \<not> isSpace (hd (trim s))"
proof (cases "trim s = []")
  case True
  then show ?thesis by simp
next
  case False
  let ?x = "dropWhile isSpace s"
  obtain t where t: "?x = trimEnd ?x @ t" using trimEnd_prefix by blast
  have ne: "trimEnd ?x \<noteq> []" using False by (simp add: trim_def trimStart_def)
  then have "hd (trimEnd ?x) = hd ?x" using t by (metis hd_append2)
  moreover have "?x \<noteq> []" using ne t by (metis append_is_Nil_conv)
  then have "\<not> isSpace (hd ?x)" by (rule hd_dropWhile)
  ultimately show ?thesis by (simp add: trim_def trimStart_def)
qed

lemma trim_fixed:
  assumes "s \<noteq> []" "\<not> isSpace (hd s)" "\<not> isSpace (last s)"
  shows "trim s = s"
proof -
  have 1: "dropWhile isSpace s = s" using assms(1,2) by (cases s) auto
  have "rev s \<noteq> []" "\<not> isSpace (hd (rev s))" using assms(1,3) by (simp_all add: hd_rev)
  then have "dropWhile isSpace (rev s) = rev s" by (cases "rev s") auto
  then show ?thesis by (simp add: trim_def trimStart_def trimEnd_def 1)
qed

lemma endsWith_iff: "endsWith s suffix \<longleftrightarrow> (\<exists>x. s = x @ suffix)"
proof
  assume "endsWith s suffix"
  then have "s = take (length s - length suffix) s @ suffix"
    by (metis append_take_drop_id endsWith_def)
  then show "\<exists>x. s = x @ suffix" by blast
next
  assume "\<exists>x. s = x @ suffix"
  then show "endsWith s suffix" by (auto simp: endsWith_def)
qed

lemma domain_branch:
  "sanitizeInput h (JStr s) ''shopifyDomain'' opts =
     Some (JStr (let domain = toLowerCase (trim s)
                 in if endsWith domain ''.myshopify.com'' then domain else domain @ ''.myshopify.com''))"
  by (simp add: sanitizeInput.simps Let_def)

lemma suffix_lower: "toLowerCase ''.myshopify.com'' = ''.myshopify.com''"
  by (simp add: toLowerCase_def lowerChar_def)

lemma domain_fixed:
  assumes d: "d = toLowerCase (trim s)"
  defines "out \<equiv> (if endsWith d ''.myshopify.com'' then d else d @ ''.myshopify.com'')"
  shows "toLowerCase (trim out) = out \<and> endsWith out ''.myshopify.com''"
proof -
  have "\<exists>x. out = x @ ''.myshopify.com'' \<and> (x = d \<or> d = x @ ''.myshopify.com'')"
  proof (cases "endsWith d ''.myshopify.com''")
    case True
    then obtain y where "d = y @ ''.myshopify.com''" unfolding endsWith_iff by blast
    then show ?thesis using True by (simp add: out_def)
  next
    case False
    then show ?thesis by (simp add: out_def)
  qed
  then obtain x where x: "out = x @ ''.myshopify.com''" and xd: "x = d \<or> d = x @ ''.myshopify.com''"
    by blast
  have e: "endsWith out ''.myshopify.com''" using x by (auto simp: endsWith_iff)
  have ne: "out \<noteq> []" using x by simp
  have lst: "\<not> isSpace (last out)" using x by (simp add: isSpace_def)
  have dh: "d = [] \<or> \<not> isSpace (hd d)"
    using trim_head[of s] unfolding d toLowerCase_def
    by (cases "trim s") (auto simp: isSpace_lowerChar)
  have xh: "x = [] \<or> \<not> isSpace (hd x)"
    using xd dh by (cases x) auto
  have hd: "\<not> isSpace (hd out)"
    using xh x by (cases x) (auto simp: isSpace_def)
  have t: "trim out = out" using trim_fixed[OF ne hd lst] .
  have "toLowerCase d = d" unfolding d by (rule toLowerCase_idem)
  then have "toLowerCase out = out"
    unfolding out_def using suffix_lower by (simp add: toLowerCase_def)
  then show ?thesis using t e by simp
qed

text \<open>
  C8. For every string input, \<^verbatim>\<open>sanitizeInput\<close> with type \<^verbatim>\<open>shopifyDomain\<close> trims and
  lowercases the input and appends \<^verbatim>\<open>.myshopify.com\<close> exactly when the result does not end
  with it already; sanitizing the output again returns the same value; and
  \<^verbatim>\<open>sanitizeInput('mystore', 'shopifyDomain')\<close> is \<^verbatim>\<open>mystore.myshopify.com\<close>.
\<close>

theorem domain_idempotent:
  "sanitizeInput h (JStr s) ''shopifyDomain'' opts =
     Some (JStr (if endsWith (toLowerCase (trim s)) ''.myshopify.com''
                 then toLowerCase (trim s) else toLowerCase (trim s) @ ''.myshopify.com''))
   \<and> Option.bind (sanitizeInput h (JStr s) ''shopifyDomain'' opts)
         (\<lambda>out. sanitizeInput h out ''shopifyDomain'' opts)
       = sanitizeInput h (JStr s) ''shopifyDomain'' opts
   \<and> sanitizeInput h (JStr ''mystore'') ''shopifyDomain'' opts
       = Some (JStr ''mystore.myshopify.com'')"
proof -
  have 1: "sanitizeInput h (JStr s) ''shopifyDomain'' opts =
     Some (JStr (if endsWith (toLowerCase (trim s)) ''.myshopify.com''
                 then toLowerCase (trim s) else toLowerCase (trim s) @ ''.myshopify.com''))"
    by (simp add: domain_branch Let_def)
  have 2: "Option.bind (sanitizeInput h (JStr s) ''shopifyDomain'' opts)
         (\<lambda>out. sanitizeInput h out ''shopifyDomain'' opts)
       = sanitizeInput h (JStr s) ''shopifyDomain'' opts"
    using domain_fixed[OF refl, of s] unfolding 1
    by (simp add: domain_branch Let_def)
  have 3: "sanitizeInput h (JStr ''mystore'') ''shopifyDomain'' opts
             = Some (JStr ''mystore.myshopify.com'')"
    by (simp add: domain_branch Let_def trim_def trimStart_def trimEnd_def isSpace_def
          toLowerCase_def lowerChar_def endsWith_def)
  show ?thesis using 1 2 3 by simp
qed

theorem domain_idempotent_witness:
  "sanitizeInput exampleHost (JStr ''  MyStore  '') ''shopifyDomain'' noOptions
     = Some (JStr ''mystore.myshopify.com'')
   \<and> sanitizeInput exampleHost (JStr ''mystore.myshopify.com'') ''shopifyDomain'' noOptions
     = Some (JStr ''mystore.myshopify.com'')"
  using domain_idempotent [of exampleHost "''  MyStore  ''" noOptions]
        domain_idempotent [of exampleHost "''mystore.myshopify.com''" noOptions]
  by (simp add: trim_def trimStart_def trimEnd_def isSpace_def toLowerCase_def lowerChar_def
        endsWith_def char_of_eq_iff)

lemma update_fresh: "k \<notin> fst ` set al \<Longrightarrow> AList.update k v al = al @ [(k, v)]"
  by (induction al) auto

lemma validateFields_eq:
  assumes "distinct (map fst schema)"
    and "''__proto__'' \<notin> fst ` set schema"
    and "fst ` set schema \<inter> fst ` set sanitized = {}"
    and "fst ` set schema \<inter> fst ` set errors = {}"
    and "\<forall>p\<in>set schema.
           sanitizeInput h (getProp data (fst p)) (ruleType (snd p)) (options (snd p)) = Some (sv p)
           \<and> validateInput h (sv p) (ruleType (snd p)) (validation (snd p)) = Some (es p)"
  shows "validateFields h data schema sanitized errors =
     Some (sanitized @ map (\<lambda>p. (fst p, sv p)) (filter (\<lambda>p. es p = []) schema),
           errors @ map (\<lambda>p. (fst p, JArr (map JStr (es p)))) (filter (\<lambda>p. es p \<noteq> []) schema))"
  using assms
proof (induction schema arbitrary: sanitized errors)
  case Nil
  then show ?case by simp
next
  case (Cons p schema)
  obtain field rules where p: "p = (field, rules)" by (cases p)
  have d: "distinct (map fst schema)" and nf: "field \<notin> fst ` set schema"
    using Cons.prems(1) by (auto simp: p)
  have np: "''__proto__'' \<notin> fst ` set schema" and fp: "field \<noteq> ''__proto__''"
    using Cons.prems(2) by (auto simp: p)
  have fs: "field \<notin> fst ` set sanitized" and fe: "field \<notin> fst ` set errors"
    using Cons.prems(3,4) by (auto simp: p)
  have here: "sanitizeInput h (getProp data field) (ruleType rules) (options rules) = Some (sv p)"
             "validateInput h (sv p) (ruleType rules) (validation rules) = Some (es p)"
    using Cons.prems(5) by (auto simp: p)
  have rest: "\<forall>p\<in>set schema.
           sanitizeInput h (getProp data (fst p)) (ruleType (snd p)) (options (snd p)) = Some (sv p)
           \<and> validateInput h (sv p) (ruleType (snd p)) (validation (snd p)) = Some (es p)"
    using Cons.prems(5) by simp
  show ?case
  proof (cases "es p = []")
    case True
    have a: "fst ` set schema \<inter> fst ` set (sanitized @ [(field, sv p)]) = {}"
      using Cons.prems(3) nf by (auto simp: p)
    have b: "fst ` set schema \<inter> fst ` set errors = {}" using Cons.prems(4) by auto
    have "validateFields h data schema (sanitized @ [(field, sv p)]) errors =
       Some ((sanitized @ [(field, sv p)])
               @ map (\<lambda>p. (fst p, sv p)) (filter (\<lambda>p. es p = []) schema),
             errors @ map (\<lambda>p. (fst p, JArr (map JStr (es p)))) (filter (\<lambda>p. es p \<noteq> []) schema))"
      using Cons.IH[OF d np a b rest] .
    then show ?thesis using True fs fp here
      by (simp add: p update_fresh assignProp_def)
  next
    case False
    have a: "fst ` set schema \<inter> fst ` set (errors @ [(field, JArr (map JStr (es p)))]) = {}"
      using Cons.prems(4) nf by (auto simp: p)
    have b: "fst ` set schema \<inter> fst ` set sanitized = {}" using Cons.prems(3) by auto
    have "validateFields h data schema sanitized (errors @ [(field, JArr (map JStr (es p)))]) =
       Some (sanitized @ map (\<lambda>p. (fst p, sv p)) (filter (\<lambda>p. es p = []) schema),
             (errors @ [(field, JArr (map JStr (es p)))])
               @ map (\<lambda>p. (fst p, JArr (map JStr (es p)))) (filter (\<lambda>p. es p \<noteq> []) schema))"
      using Cons.IH[OF d np b a rest] .
    then show ?thesis using False fe fp here
      by (simp add: p update_fresh assignProp_def)
  qed
qed

text \<open>
  When no conversion throws, the schema has distinct field names and none of them is
  \<^verbatim>\<open>__proto__\<close>, \<^verbatim>\<open>validateAndSanitizeRequest\<close> either throws the VALIDATION error whose
  context value maps each failing field, and no other, to its list of errors, or returns the
  object that maps each field of the schema to its sanitized value.
\<close>

lemma request_closed_form:
  assumes "distinct (map fst schema)"
    and "''__proto__'' \<notin> fst ` set schema"
    and "\<forall>p\<in>set schema.
           sanitizeInput h (getProp data (fst p)) (ruleType (snd p)) (options (snd p)) = Some (sv p)
           \<and> validateInput h (sv p) (ruleType (snd p)) (validation (snd p)) = Some (es p)"
  shows "validateAndSanitizeRequest h data schema =
     (if \<exists>p\<in>set schema. es p \<noteq> []
      then Inl (Thrown
             \<lparr>message = ''Validation failed for request_validation: Request validation failed'',
              type = VALIDATION, statusCode = 400, severity = LOW,
              errContext =
                [(''field'', JStr ''request_validation''),
                 (''value'', JObj (map (\<lambda>p. (fst p, JArr (map JStr (es p))))
                                       (filter (\<lambda>p. es p \<noteq> []) schema))),
                 (''validationMessage'', JStr ''Request validation failed'')]\<rparr>)
      else Inr (map (\<lambda>p. (fst p, sv p)) schema))"
proof -
  let ?bad = "filter (\<lambda>p. es p \<noteq> []) schema"
  have vf: "validateFields h data schema [] [] =
     Some (map (\<lambda>p. (fst p, sv p)) (filter (\<lambda>p. es p = []) schema),
           map (\<lambda>p. (fst p, JArr (map JStr (es p)))) ?bad)"
    using validateFields_eq[OF assms(1,2) _ _ assms(3), of "[]" "[]"] by simp
  have ne: "(0 < length ?bad) = (\<exists>p\<in>set schema. es p \<noteq> [])"
    by (auto simp: filter_empty_conv)
  have all: "filter (\<lambda>p. es p = []) schema = schema" if "\<not> (\<exists>p\<in>set schema. es p \<noteq> [])"
    using that by (simp add: filter_id_conv)
  show ?thesis
    unfolding validateAndSanitizeRequest_def vf using ne all
    by (simp add: createValidationError_def)
qed

text \<open>
  C5. The outcome is not always a VALIDATION error or a record of sanitized values:
  \<^verbatim>\<open>validateAndSanitizeRequest({name: {toString: 1}}, {name: {type: 'name', validation: {required: true}}})\<close>
  ends in the \<^verbatim>\<open>TypeError\<close> that \<^verbatim>\<open>String(input)\<close> throws inside \<^verbatim>\<open>sanitizeInput\<close>, which
  nothing catches; no error map is built.
\<close>

theorem request_type_error:
  "validateAndSanitizeRequest h [(''name'', JObj [(''toString'', JNum (Fin 1))])] nameSchema
     = Inl TypeError"
  by (simp add: validateAndSanitizeRequest_def nameSchema_def getProp_def sanitizeInput.simps
        noOptions_def)

section \<open>Properties of the required-fields helper\<close>

lemma collectMissing_filter:
  "collectMissing data fs missing = missing @ filter (fieldMissing data) fs"
  by (induction fs arbitrary: missing) auto

text \<open>
  \<^verbatim>\<open>validateRequiredFields\<close> throws exactly when some listed field fails the test of the
  loop; the one VALIDATION error has a message that ends with all such fields, in the order of
  the list, joined by a comma and a space.
\<close>

lemma required_closed_form:
  "validateRequiredFields data requiredFields =
     (if \<exists>f\<in>set requiredFields. fieldMissing data f
      then Inl \<lparr>message = ''Validation failed for required_fields: Missing required fields: ''
                          @ join '', '' (filter (fieldMissing data) requiredFields),
                type = VALIDATION, statusCode = 400, severity = LOW,
                errContext =
                  [(''field'', JStr ''required_fields''),
                   (''value'', JArr (map JStr (filter (fieldMissing data) requiredFields))),
                   (''validationMessage'',
                    JStr (''Missing required fields: ''
                          @ join '', '' (filter (fieldMissing data) requiredFields)))]\<rparr>
      else Inr True)"
proof -
  let ?m = "filter (fieldMissing data) requiredFields"
  have eq: "collectMissing data requiredFields [] = ?m" by (simp add: collectMissing_filter)
  have ne: "(0 < length ?m) = (\<exists>f\<in>set requiredFields. fieldMissing data f)"
    by (auto simp: filter_empty_conv)
  show ?thesis
    unfolding validateRequiredFields_def eq Let_def ne by (simp add: createValidationError_def)
qed

lemma fieldMissing_iff:
  "fieldMissing data f \<longleftrightarrow>
     (map_of data f = None \<and> \<not> inherited f) \<or> map_of data f = Some JNull
     \<or> map_of data f = Some JUndefined \<or> map_of data f = Some (JStr [])"
  by (auto simp: fieldMissing_def getProp_def hasProp_def split: option.splits)

text \<open>
  C9. A listed field that is absent from the record is not always reported: the test
  \<^verbatim>\<open>field in data\<close> also finds the members that every object inherits, whose values are
  functions. \<^verbatim>\<open>validateRequiredFields({}, ['toString'])\<close> returns \<^verbatim>\<open>true\<close>, and
  \<^verbatim>\<open>validateRequiredFields({x: 1}, ['constructor', 'y'])\<close> throws an error that lists \<^verbatim>\<open>y\<close>
  only.
\<close>

theorem inherited_name_not_missing:
  "validateRequiredFields [] [''toString''] = Inr True
   \<and> validateRequiredFields [(''x'', JNum (Fin 1))] [''constructor'', ''y'']
       = Inl \<lparr>message = ''Validation failed for required_fields: Missing required fields: y'',
              type = VALIDATION, statusCode = 400, severity = LOW,
              errContext = [(''field'', JStr ''required_fields''), (''value'', JArr [JStr ''y'']),
                            (''validationMessage'', JStr ''Missing required fields: y'')]\<rparr>"
  by (simp add: validateRequiredFields_def fieldMissing_def hasProp_def getProp_def inherited_def
        objectPrototype_def createValidationError_def)

section \<open>Properties of the token bucket\<close>

text \<open>
  C3. For any store, shop, cost and clock readings, \<^verbatim>\<open>waitForAvailability\<close> computes what the
  specification describes: it refills \<open>floor(elapsedSeconds * refillRate)\<close> tokens capped at
  \<open>maxTokens\<close> and moves \<open>lastRefill\<close> only when that amount is positive; when the tokens are
  fewer than the cost it waits \<open>ceil((cost - tokens) / refillRate * 1000)\<close> milliseconds and then
  sets the tokens to \<open>min(maxTokens, tokens + cost)\<close> without checking again, otherwise it
  deducts the cost; it returns the remaining tokens and \<open>maxTokens\<close>. A bucket created by the
  call has \<open>maxTokens = 40\<close> and \<open>refillRate = 2\<close>.
\<close>

theorem acquire_refines_spec:
  "waitForAvailability bs shop cost ck = spec_acquire bs shop cost ck
   \<and> (bs (bucketKey shop) = None \<longrightarrow>
        availMaxTokens (snd (snd (waitForAvailability bs shop cost ck))) = 40
        \<and> (\<exists>b. fst (waitForAvailability bs shop cost ck) (bucketKey shop) = Some b
                 \<and> maxTokens b = 40 \<and> refillRate b = 2))"
  by (cases "bs (bucketKey shop)")
     (auto simp: waitForAvailability_def spec_acquire_def getBucket_def refill_def consume_def
           bucketKey_def freshBucket_def Let_def)

theorem acquire_refines_spec_witness:
  "snd (waitForAvailability Map.empty ''shop'' 1 \<lparr>createdAt = 0, now = 0\<rparr>)
     = (None, \<lparr>remainingTokens = 39, availMaxTokens = 40\<rparr>)
   \<and> snd (waitForAvailability
            [bucketKey ''shop'' \<mapsto> \<lparr>tokens = 0, lastRefill = 0, maxTokens = 40, refillRate = 2\<rparr>]
            ''shop'' 3 \<lparr>createdAt = 1250, now = 1250\<rparr>)
     = (Some 500, \<lparr>remainingTokens = 5, availMaxTokens = 40\<rparr>)"
  using acquire_refines_spec [of Map.empty "''shop''" 1 "\<lparr>createdAt = 0, now = 0\<rparr>"]
        acquire_refines_spec
          [of "[bucketKey ''shop'' \<mapsto> \<lparr>tokens = 0, lastRefill = 0, maxTokens = 40, refillRate = 2\<rparr>]"
              "''shop''" 3 "\<lparr>createdAt = 1250, now = 1250\<rparr>"]
  by (simp add: spec_acquire_def bucketKey_def Let_def)

lemma refill_ok:
  "0 \<le> tokens b \<Longrightarrow> tokens b \<le> maxTokens b \<Longrightarrow>
   0 \<le> tokens (refill b t) \<and> tokens (refill b t) \<le> maxTokens (refill b t)"
  by (auto simp: refill_def Let_def)

lemma consume_ok:
  "0 \<le> tokens b \<Longrightarrow> tokens b \<le> maxTokens b \<Longrightarrow> 0 \<le> c \<Longrightarrow>
   0 \<le> tokens (snd (consume b c)) \<and> tokens (snd (consume b c)) \<le> maxTokens (snd (consume b c))"
  by (auto simp: consume_def Let_def)

lemma getBucket_ok:
  "bucketsOk bs \<Longrightarrow>
   0 \<le> tokens (getBucket bs shop ck) \<and> tokens (getBucket bs shop ck) \<le> maxTokens (getBucket bs shop ck)"
  by (auto simp: getBucket_def bucketsOk_def freshBucket_def split: option.splits)

lemma waitForAvailability_ok:
  assumes "bucketsOk bs" "0 \<le> c"
  shows "bucketsOk (fst (waitForAvailability bs shop c ck))"
proof -
  let ?b1 = "refill (getBucket bs shop ck) (now ck)"
  have 1: "0 \<le> tokens ?b1 \<and> tokens ?b1 \<le> maxTokens ?b1"
    using getBucket_ok[OF assms(1)] refill_ok by blast
  have 2: "0 \<le> tokens (snd (consume ?b1 c))
           \<and> tokens (snd (consume ?b1 c)) \<le> maxTokens (snd (consume ?b1 c))"
    using consume_ok 1 assms(2) by blast
  have "fst (waitForAvailability bs shop c ck) = bs(bucketKey shop \<mapsto> snd (consume ?b1 c))"
    by (simp add: waitForAvailability_def Let_def split: prod.splits)
  then show ?thesis using 2 assms(1) by (auto simp: bucketsOk_def)
qed

lemma runAcquires_ok:
  "bucketsOk bs \<Longrightarrow> \<forall>c\<in>set calls. 0 \<le> fst (snd c) \<Longrightarrow> bucketsOk (runAcquires bs calls)"
proof (induction calls arbitrary: bs)
  case Nil
  then show ?case by simp
next
  case (Cons c calls)
  obtain shop cost ck where c: "c = (shop, cost, ck)" by (cases c) auto
  show ?case using Cons waitForAvailability_ok[of bs cost shop ck] by (simp add: c)
qed

text \<open>
  C4. Start from the empty bucket store and run any sequence of \<^verbatim>\<open>waitForAvailability\<close> calls,
  one after the other, each with a cost that is not negative (the middle component of a call).
  After every prefix of the sequence, so before and after each call, every bucket of the
  store satisfies \<open>0 \<le> tokens \<le> maxTokens\<close>.
\<close>

theorem bucket_tokens_bounded:
  assumes "\<forall>c\<in>set calls. 0 \<le> fst (snd c)"
  shows "bucketsOk (runAcquires Map.empty (take n calls))"
proof -
  have "bucketsOk Map.empty" by (simp add: bucketsOk_def)
  moreover have "\<forall>c\<in>set (take n calls). 0 \<le> fst (snd c)"
    using assms by (meson in_set_takeD)
  ultimately show ?thesis by (rule runAcquires_ok)
qed

theorem bucket_tokens_bounded_witness:
  "bucketsOk (runAcquires Map.empty
     (take 2 [(''shop'', 1, \<lparr>createdAt = 0, now = 0\<rparr>),
              (''shop'', 50, \<lparr>createdAt = 9, now = 9\<rparr>)]))"
  using bucket_tokens_bounded
    [of "[(''shop'', 1, \<lparr>createdAt = 0, now = 0\<rparr>), (''shop'', 50, \<lparr>createdAt = 9, now = 9\<rparr>)]" 2]
  by simp

section \<open>Properties of the fixed-window limiter\<close>

lemma maxRequests_pos: "configFor ty = Some c \<Longrightarrow> 0 < maxRequests c"
  by (auto simp: configFor_def RATE_LIMITS_def apiConfig_def split: option.splits if_splits)

lemma classOfKey_generateKey:
  "CHR '':'' \<notin> set ty \<Longrightarrow> classOfKey (generateKey i e ty) = ty"
proof -
  have "takeWhile (\<lambda>c. c \<noteq> CHR '':'') (ty @ CHR '':'' # rest) = ty" if "CHR '':'' \<notin> set ty" for rest
    using that by (induction ty) auto
  then show "CHR '':'' \<notin> set ty \<Longrightarrow> classOfKey (generateKey i e ty) = ty"
    by (simp add: classOfKey_def generateKey_def)
qed

lemma cleanup_ok: "storeOk s \<Longrightarrow> storeOk (cleanupExpiredEntries s t)"
  by (auto simp: storeOk_def cleanupExpiredEntries_def split: option.splits if_splits)

lemma storeOk_upd:
  "storeOk s \<Longrightarrow>
   (\<And>c. configFor (classOfKey key) = Some c \<Longrightarrow> 0 \<le> count d \<and> count d \<le> maxRequests c) \<Longrightarrow>
   storeOk (s(key \<mapsto> d))"
  by (auto simp: storeOk_def)

lemma storeOk_get:
  "storeOk s \<Longrightarrow> s key = Some d \<Longrightarrow> configFor (classOfKey key) = Some c \<Longrightarrow>
   0 \<le> count d \<and> count d \<le> maxRequests c"
  by (auto simp: storeOk_def)

lemma check_ok:
  assumes "storeOk s" "CHR '':'' \<notin> set ty"
  shows "storeOk (fst (checkRateLimit s req e ty rd))"
proof -
  let ?key = "generateKey (getClientIdentifier req) e ty"
  let ?s1 = "if mathRandom rd < 0.01 then cleanupExpiredEntries s (sweepNow rd) else s"
  have s1: "storeOk ?s1" using assms(1) cleanup_ok by simp
  have k: "classOfKey ?key = ty" using assms(2) by (rule classOfKey_generateKey)
  show ?thesis
  proof (cases "configFor ty")
    case None
    have u: "storeOk (?s1(?key \<mapsto> d))" for d
      using s1 by (rule storeOk_upd) (simp add: k None)
    show ?thesis using s1 u
      by (auto simp: checkRateLimit_def Let_def None reachedMax_def definedAnd_def
               split: option.splits)
  next
    case (Some c)
    note mp = maxRequests_pos[OF Some]
    show ?thesis
    proof (cases "?s1 ?key")
      case None
      then show ?thesis using s1 k mp Some
        by (auto simp: checkRateLimit_def Let_def reachedMax_def definedAnd_def
                 intro!: storeOk_upd)
    next
      case d: (Some d)
      have b: "0 \<le> count d \<and> count d \<le> maxRequests c"
        using storeOk_get[OF s1 d] k Some by simp
      show ?thesis using s1 k mp Some d b
        by (auto simp: checkRateLimit_def Let_def reachedMax_def definedAnd_def
                 intro!: storeOk_upd)
    qed
  qed
qed

lemma decrement_ok: "storeOk s \<Longrightarrow> storeOk (decrementCount s key)"
proof (cases "s key")
  case None
  then show "storeOk s \<Longrightarrow> storeOk (decrementCount s key)" by (simp add: decrementCount_def)
next
  case (Some d)
  assume ok: "storeOk s"
  have "storeOk (s(key \<mapsto> d\<lparr>count := count d - 1\<rparr>))" if "count d > 0"
    using ok
  proof (rule storeOk_upd)
    fix c assume "configFor (classOfKey key) = Some c"
    from storeOk_get[OF ok Some this] that
    show "0 \<le> count (d\<lparr>count := count d - 1\<rparr>) \<and> count (d\<lparr>count := count d - 1\<rparr>) \<le> maxRequests c"
      by simp
  qed
  then show "storeOk (decrementCount s key)"
    using ok Some by (simp add: decrementCount_def)
qed

lemma step_ok: "storeOk s \<Longrightarrow> CHR '':'' \<notin> set (callType c) \<Longrightarrow> storeOk (step s c)"
  by (cases c) (auto simp: check_ok recordSuccess_def recordFailure_def decrement_ok)

lemma run_ok: "storeOk s \<Longrightarrow> \<forall>c\<in>set calls. CHR '':'' \<notin> set (callType c) \<Longrightarrow> storeOk (foldl step s calls)"
  by (induction calls arbitrary: s) (auto simp: step_ok)

text \<open>
  C10. Start from the empty store and run any sequence of \<^verbatim>\<open>checkRateLimit\<close>,
  \<^verbatim>\<open>recordSuccess\<close> and \<^verbatim>\<open>recordFailure\<close> calls, one after the other, whose class names
  contain no colon (the key then determines the class). After every prefix of the sequence,
  so before and after each call, the entry of every (identifier, endpoint, class) whose class
  has a configuration (one of the five configured classes, or a name that falls back to
  \<^verbatim>\<open>api\<close>) satisfies \<open>0 \<le> count \<le> maxRequests\<close> of that configuration.
\<close>

theorem count_within_quota:
  assumes "\<forall>c\<in>set calls. CHR '':'' \<notin> set (callType c)"
    and "CHR '':'' \<notin> set ty"
    and "configFor ty = Some cfg"
    and "foldl step Map.empty (take n calls) (generateKey identifier endpoint ty) = Some d"
  shows "0 \<le> count d \<and> count d \<le> maxRequests cfg"
proof -
  have "storeOk Map.empty" by (simp add: storeOk_def)
  moreover have "\<forall>c\<in>set (take n calls). CHR '':'' \<notin> set (callType c)"
    using assms(1) by (meson in_set_takeD)
  ultimately have "storeOk (foldl step Map.empty (take n calls))" by (rule run_ok)
  from storeOk_get[OF this assms(4)] classOfKey_generateKey[OF assms(2)] assms(3)
  show ?thesis by simp
qed

theorem count_within_quota_witness:
  "foldl step Map.empty
     (take 3 [Check exampleRequest ''login'' ''auth'' (readingAt 0),
              Success exampleRequest ''login'' ''auth'',
              Success exampleRequest ''login'' ''auth''])
     (generateKey ''mystore.myshopify.com'' ''login'' ''auth'')
   = Some \<lparr>count = 0, resetTime = Some 900000, firstRequest = 0\<rparr>
   \<and> configFor ''auth'' = Some \<lparr>windowMs = 900000, maxRequests = 10,
                                 skipSuccessfulRequests = True, skipFailedRequests = False\<rparr>
   \<and> 0 \<le> count \<lparr>count = 0, resetTime = Some 900000, firstRequest = 0\<rparr>
   \<and> count \<lparr>count = 0, resetTime = Some 900000, firstRequest = 0\<rparr> \<le> 10"
proof -
  have c: "configFor ''auth'' = Some \<lparr>windowMs = 900000, maxRequests = 10,
                                 skipSuccessfulRequests = True, skipFailedRequests = False\<rparr>"
    by (simp add: configFor_def RATE_LIMITS_def)
  have run: "foldl step Map.empty
     (take 3 [Check exampleRequest ''login'' ''auth'' (readingAt 0),
              Success exampleRequest ''login'' ''auth'',
              Success exampleRequest ''login'' ''auth''])
     (generateKey ''mystore.myshopify.com'' ''login'' ''auth'')
   = Some \<lparr>count = 0, resetTime = Some 900000, firstRequest = 0\<rparr>"
    by (simp add: checkRateLimit_def recordSuccess_def decrementCount_def Let_def c
          reachedMax_def definedAnd_def pastReset_def
          generateKey_def getClientIdentifier_def nonEmpty_def exampleRequest_def
          readingAt_def)
  show ?thesis
    using run c count_within_quota
      [of "[Check exampleRequest ''login'' ''auth'' (readingAt 0),
            Success exampleRequest ''login'' ''auth'',
            Success exampleRequest ''login'' ''auth'']"
          "''auth''" "\<lparr>windowMs = 900000, maxRequests = 10,
                        skipSuccessfulRequests = True, skipFailedRequests = False\<rparr>"
          3 "''mystore.myshopify.com''" "''login''"
          "\<lparr>count = 0, resetTime = Some 900000, firstRequest = 0\<rparr>"]
    by simp
qed

text \<open>
  A class named after a member that \<^verbatim>\<open>RATE_LIMITS\<close> inherits has no maximum: 61 calls for
  the class \<^verbatim>\<open>constructor\<close> at one instant are all counted.
\<close>

lemma inherited_class_unbounded:
  "map_option count
     (fst (checkMany Map.empty exampleRequest ''orders'' ''constructor'' (replicate 61 (readingAt 0)))
        (generateKey ''mystore.myshopify.com'' ''orders'' ''constructor''))
   = Some 61"
  by code_simp

lemma swept_open:
  assumes "windowOpen s key k r" "quiet rd r"
  shows "windowOpen (if mathRandom rd < 0.01 then cleanupExpiredEntries s (sweepNow rd) else s) key k r"
  using assms
  by (auto simp: windowOpen_def quiet_def cleanupExpiredEntries_def pastReset_def definedAnd_def)

lemma check_in_window:
  assumes "configFor ty = Some cfg"
    "windowOpen s (keyOf req e ty) k r" "quiet rd r" "k < maxRequests cfg"
  shows "\<exists>s'. checkRateLimit s req e ty rd =
           (s', Inr \<lparr>limit = Some (maxRequests cfg),
                    remaining = Some (maxRequests cfg - (k + 1)),
                    reset = Some r,
                    retryAfter = (if k + 1 \<ge> maxRequests cfg
                                  then Some (secondsUntil (Some r) (dateNow rd)) else None)\<rparr>)
         \<and> windowOpen s' (keyOf req e ty) (k + 1) r"
proof -
  let ?s1 = "if mathRandom rd < 0.01 then cleanupExpiredEntries s (sweepNow rd) else s"
  from swept_open[OF assms(2,3)] obtain d where
    d: "?s1 (keyOf req e ty) = Some d" "count d = k" "resetTime d = Some r"
    by (auto simp: windowOpen_def)
  have t: "\<not> pastReset (dateNow rd) d" using assms(3) d(3)
    by (simp add: quiet_def pastReset_def definedAnd_def)
  show ?thesis using d t assms(4)
    by (simp add: checkRateLimit_def Let_def keyOf_def[symmetric] windowOpen_def max_def assms(1)
          reachedMax_def definedAnd_def)
qed

lemma check_rejected:
  assumes "configFor ty = Some cfg"
    "windowOpen s (keyOf req e ty) k r" "quiet rd r" "maxRequests cfg \<le> k"
  shows "\<exists>s'. checkRateLimit s req e ty rd =
           (s', Inl (createRateLimitError (JNum (secondsUntil (Some r) (dateNow rd)))))
         \<and> windowOpen s' (keyOf req e ty) k r"
proof -
  let ?s1 = "if mathRandom rd < 0.01 then cleanupExpiredEntries s (sweepNow rd) else s"
  from swept_open[OF assms(2,3)] obtain d where
    d: "?s1 (keyOf req e ty) = Some d" "count d = k" "resetTime d = Some r"
    by (auto simp: windowOpen_def)
  have t: "\<not> pastReset (dateNow rd) d" using assms(3) d(3)
    by (simp add: quiet_def pastReset_def definedAnd_def)
  show ?thesis using d t assms(4)
    by (simp add: checkRateLimit_def Let_def keyOf_def[symmetric] windowOpen_def assms(1)
          reachedMax_def definedAnd_def)
qed

lemma check_opens:
  assumes "configFor ty = Some cfg"
    "s (keyOf req e ty) = None \<or> (\<exists>d. s (keyOf req e ty) = Some d \<and> pastReset (dateNow rd) d)"
  shows "\<exists>s'. checkRateLimit s req e ty rd =
           (s', Inr \<lparr>limit = Some (maxRequests cfg),
                    remaining = Some (maxRequests cfg - 1),
                    reset = Some (dateNow rd + windowMs cfg),
                    retryAfter = (if 1 \<ge> maxRequests cfg
                                  then Some (secondsUntil (Some (dateNow rd + windowMs cfg)) (dateNow rd))
                                  else None)\<rparr>)
         \<and> windowOpen s' (keyOf req e ty) 1 (dateNow rd + windowMs cfg)"
proof -
  let ?s1 = "if mathRandom rd < 0.01 then cleanupExpiredEntries s (sweepNow rd) else s"
  have "?s1 (keyOf req e ty) = None \<or> (\<exists>d. ?s1 (keyOf req e ty) = Some d \<and> pastReset (dateNow rd) d)"
    using assms(2) by (cases "s (keyOf req e ty)") (auto simp: cleanupExpiredEntries_def)
  then show ?thesis using maxRequests_pos[OF assms(1)]
    by (auto simp: checkRateLimit_def Let_def keyOf_def[symmetric] windowOpen_def max_def assms(1)
          reachedMax_def definedAnd_def)
qed

lemma checkMany_in_window:
  assumes "configFor ty = Some cfg"
    "windowOpen s (keyOf req e ty) k r" "\<forall>rd\<in>set rds. quiet rd r"
    "k + int (length rds) \<le> maxRequests cfg"
  shows "\<exists>s' outs. checkMany s req e ty rds = (s', outs)
         \<and> windowOpen s' (keyOf req e ty) (k + int (length rds)) r
         \<and> length outs = length rds
         \<and> (\<forall>i<length rds. \<exists>info. outs ! i = Inr info
               \<and> limit info = Some (maxRequests cfg)
               \<and> remaining info = Some (maxRequests cfg - (k + int i + 1))
               \<and> reset info = Some r)"
  using assms(2-)
proof (induction rds arbitrary: s k)
  case Nil
  then show ?case by simp
next
  case (Cons rd rds)
  have q: "quiet rd r" and k: "k < maxRequests cfg" using Cons.prems by auto
  from check_in_window[OF assms(1) Cons.prems(1) q k] obtain s1 info1 where
    s1: "checkRateLimit s req e ty rd = (s1, Inr info1)"
        "limit info1 = Some (maxRequests cfg)"
        "remaining info1 = Some (maxRequests cfg - (k + 1))"
        "reset info1 = Some r"
        "windowOpen s1 (keyOf req e ty) (k + 1) r"
    by auto
  have "\<forall>rd\<in>set rds. quiet rd r" "(k + 1) + int (length rds) \<le> maxRequests cfg"
    using Cons.prems by auto
  from Cons.IH[OF s1(5) this] obtain s' outs where
    r: "checkMany s1 req e ty rds = (s', outs)"
       "windowOpen s' (keyOf req e ty) (k + 1 + int (length rds)) r"
       "length outs = length rds"
       "\<forall>i<length rds. \<exists>info. outs ! i = Inr info
               \<and> limit info = Some (maxRequests cfg)
               \<and> remaining info = Some (maxRequests cfg - (k + 1 + int i + 1))
               \<and> reset info = Some r"
    by auto
  have cm: "checkMany s req e ty (rd # rds) = (s', Inr info1 # outs)"
    using s1(1) r(1) by simp
  have nth: "\<exists>info. (Inr info1 # outs) ! i = Inr info
               \<and> limit info = Some (maxRequests cfg)
               \<and> remaining info = Some (maxRequests cfg - (k + int i + 1))
               \<and> reset info = Some r" if "i < length (rd # rds)" for i
  proof (cases i)
    case 0
    then show ?thesis using s1 by simp
  next
    case (Suc j)
    then have "j < length rds" using that by simp
    with r(4) Suc show ?thesis by (auto simp: algebra_simps)
  qed
  show ?case using cm r(2,3) nth by (auto simp: algebra_simps)
qed

lemma ceiling_seconds_sign:
  "0 \<le> \<lceil>real_of_int (r - t) / 1000\<rceil> \<longleftrightarrow> t < r + 1000"
  "0 < \<lceil>real_of_int (r - t) / 1000\<rceil> \<longleftrightarrow> t < r"
  by (simp_all add: ceiling_le_iff less_ceiling_iff) linarith+

text \<open>
  C2, amended. Fix a request, an endpoint and a class that has a configuration, and let the
  first call open a window (the key has no entry, or its entry has expired at the instant of
  the call). Let \<open>maxRequests\<close> calls be made, the later ones at instants not past the reset
  time of that window (a sweep that one of them triggers reading a clock not past it either),
  with no \<^verbatim>\<open>recordSuccess\<close> or \<^verbatim>\<open>recordFailure\<close> in between: all of them return normally, the
  \<open>i\<close>-th with \<open>remaining = maxRequests - i\<close>. One more such call within the window throws
  an error of type RATE_LIMIT with status 429 and leaves the count as it is; the context of
  the error carries \<open>retryAfter = ceil((resetTime - now) / 1000)\<close>, which is never negative and
  is positive exactly when the call comes strictly before the reset time. After that, a call
  at an instant past the reset time opens a new window and returns normally, with
  \<open>remaining = maxRequests - 1\<close>.
\<close>

theorem window_quota:
  assumes cfg: "configFor ty = Some cfg"
    and opens: "store (keyOf req endpoint ty) = None
                \<or> (\<exists>d r. store (keyOf req endpoint ty) = Some d \<and> resetTime d = Some r
                          \<and> r < dateNow rd1)"
    and len: "int (length (rd1 # rds)) = maxRequests cfg"
    and inw: "\<forall>rd\<in>set rds. quiet rd (dateNow rd1 + windowMs cfg)"
    and next_inw: "quiet rdX (dateNow rd1 + windowMs cfg)"
    and later: "dateNow rd1 + windowMs cfg < dateNow rdL"
  shows "\<exists>s1 outs s2 s3.
       checkMany store req endpoint ty (rd1 # rds) = (s1, outs)
       \<and> length outs = length (rd1 # rds)
       \<and> (\<forall>i<length outs. \<exists>info. outs ! i = Inr info
              \<and> remaining info = Some (maxRequests cfg - int i - 1))
       \<and> checkRateLimit s1 req endpoint ty rdX =
           (s2, Inl \<lparr>message = ''Rate limit exceeded. Please try again later.'',
                     type = RATE_LIMIT, statusCode = 429, severity = MEDIUM,
                     errContext =
                       [(''retryAfter'',
                         JNum (Fin (real_of_int
                           \<lceil>real_of_int (dateNow rd1 + windowMs cfg - dateNow rdX) / 1000\<rceil>)))]\<rparr>)
       \<and> windowOpen s2 (keyOf req endpoint ty) (maxRequests cfg) (dateNow rd1 + windowMs cfg)
       \<and> 0 \<le> \<lceil>real_of_int (dateNow rd1 + windowMs cfg - dateNow rdX) / 1000\<rceil>
       \<and> (0 < \<lceil>real_of_int (dateNow rd1 + windowMs cfg - dateNow rdX) / 1000\<rceil>
            \<longleftrightarrow> dateNow rdX < dateNow rd1 + windowMs cfg)
       \<and> checkRateLimit s2 req endpoint ty rdL =
           (s3, Inr \<lparr>limit = Some (maxRequests cfg),
                     remaining = Some (maxRequests cfg - 1),
                     reset = Some (dateNow rdL + windowMs cfg),
                     retryAfter = (if 1 \<ge> maxRequests cfg
                                   then Some (Fin (real_of_int \<lceil>real_of_int (windowMs cfg) / 1000\<rceil>))
                                   else None)\<rparr>)"
proof -
  let ?M = "maxRequests cfg" and ?R = "dateNow rd1 + windowMs cfg" and ?key = "keyOf req endpoint ty"
  have opens': "store ?key = None \<or> (\<exists>d. store ?key = Some d \<and> pastReset (dateNow rd1) d)"
    using opens by (auto simp: pastReset_def definedAnd_def)
  from check_opens[of ty cfg store req endpoint rd1, OF cfg opens'] obtain s0 info0 where
    s0: "checkRateLimit store req endpoint ty rd1 = (s0, Inr info0)"
        "remaining info0 = Some (?M - 1)" "windowOpen s0 ?key 1 ?R"
    by auto
  have "1 + int (length rds) \<le> ?M" using len by simp
  from checkMany_in_window[OF cfg s0(3) inw this] obtain s1 outs where
    s1: "checkMany s0 req endpoint ty rds = (s1, outs)"
        "windowOpen s1 ?key (1 + int (length rds)) ?R"
        "length outs = length rds"
        "\<forall>i<length rds. \<exists>info. outs ! i = Inr info
               \<and> limit info = Some ?M
               \<and> remaining info = Some (?M - (1 + int i + 1))
               \<and> reset info = Some ?R"
    by blast
  have cm: "checkMany store req endpoint ty (rd1 # rds) = (s1, Inr info0 # outs)"
    using s0(1) s1(1) by simp
  have nth: "\<exists>info. (Inr info0 # outs) ! i = Inr info \<and> remaining info = Some (?M - int i - 1)"
    if "i < length (Inr info0 # outs)" for i
  proof (cases i)
    case 0
    then show ?thesis using s0(2) by simp
  next
    case (Suc j)
    then have "j < length rds" using that s1(3) by simp
    with s1(4) Suc show ?thesis by (auto simp: algebra_simps)
  qed
  have full: "windowOpen s1 ?key ?M ?R" using s1(2) len by simp
  from check_rejected[OF cfg full next_inw] obtain s2 where
    s2: "checkRateLimit s1 req endpoint ty rdX =
           (s2, Inl (createRateLimitError (JNum (secondsUntil (Some ?R) (dateNow rdX)))))"
        "windowOpen s2 ?key ?M ?R"
    by auto
  have s2': "checkRateLimit s1 req endpoint ty rdX =
           (s2, Inl \<lparr>message = ''Rate limit exceeded. Please try again later.'',
                     type = RATE_LIMIT, statusCode = 429, severity = MEDIUM,
                     errContext =
                       [(''retryAfter'',
                         JNum (Fin (real_of_int \<lceil>real_of_int (?R - dateNow rdX) / 1000\<rceil>)))]\<rparr>)"
    using s2(1) by (simp add: createRateLimitError_def secondsUntil_def)
  have "s2 ?key = None \<or> (\<exists>d. s2 ?key = Some d \<and> pastReset (dateNow rdL) d)"
    using s2(2) later by (auto simp: windowOpen_def pastReset_def definedAnd_def)
  from check_opens[of ty cfg s2 req endpoint rdL, OF cfg this] obtain s3 where
    s3: "checkRateLimit s2 req endpoint ty rdL =
           (s3, Inr \<lparr>limit = Some ?M, remaining = Some (?M - 1),
                     reset = Some (dateNow rdL + windowMs cfg),
                     retryAfter = (if 1 \<ge> ?M
                                   then Some (Fin (real_of_int \<lceil>real_of_int (windowMs cfg) / 1000\<rceil>))
                                   else None)\<rparr>)"
    by (auto simp: secondsUntil_def)
  have sgn: "0 \<le> \<lceil>real_of_int (?R - dateNow rdX) / 1000\<rceil>"
    using next_inw by (simp add: ceiling_seconds_sign quiet_def)
  show ?thesis
    using cm s1(3) nth s2' s2(2) s3 sgn ceiling_seconds_sign(2)[of ?R "dateNow rdX"]
    by (intro exI[of _ s1] exI[of _ "Inr info0 # outs"] exI[of _ s2] exI[of _ s3]) simp
qed

theorem window_quota_witness:
  "\<exists>s1 outs s2 s3.
       checkMany Map.empty exampleRequest ''orders'' ''token'' (replicate 5 (readingAt 0)) = (s1, outs)
       \<and> length outs = 5
       \<and> (\<forall>i<length outs. \<exists>info. outs ! i = Inr info \<and> remaining info = Some (5 - int i - 1))
       \<and> checkRateLimit s1 exampleRequest ''orders'' ''token'' (readingAt 1500) =
           (s2, Inl \<lparr>message = ''Rate limit exceeded. Please try again later.'',
                     type = RATE_LIMIT, statusCode = 429, severity = MEDIUM,
                     errContext = [(''retryAfter'', JNum (Fin 299))]\<rparr>)
       \<and> windowOpen s2 (keyOf exampleRequest ''orders'' ''token'') 5 300000
       \<and> checkRateLimit s2 exampleRequest ''orders'' ''token'' (readingAt 300001) =
           (s3, Inr \<lparr>limit = Some 5, remaining = Some 4, reset = Some 600001, retryAfter = None\<rparr>)"
proof -
  have c: "configFor ''token'' = Some \<lparr>windowMs = 300000, maxRequests = 5,
             skipSuccessfulRequests = False, skipFailedRequests = False\<rparr>"
    by (simp add: configFor_def RATE_LIMITS_def)
  have dn: "dateNow (readingAt t) = t" for t by (simp add: readingAt_def)
  have q: "quiet (readingAt t) 300000" if "t \<le> 300000" for t
    using that by (simp add: quiet_def readingAt_def)
  show ?thesis
    using window_quota [of "''token''" "\<lparr>windowMs = 300000, maxRequests = 5,
             skipSuccessfulRequests = False, skipFailedRequests = False\<rparr>"
        Map.empty exampleRequest "''orders''" "readingAt 0"
        "replicate 4 (readingAt 0)" "readingAt 1500" "readingAt 300001"]
    by (simp add: c dn q numeral_eq_Suc)
qed

lemma example_run:
  "checkMany Map.empty exampleRequest ''orders'' ''token'' (replicate 5 (readingAt 0))
   = ([''token:mystore.myshopify.com:orders'' \<mapsto>
         \<lparr>count = 5, resetTime = Some 300000, firstRequest = 0\<rparr>],
      [Inr \<lparr>limit = Some 5, remaining = Some 4, reset = Some 300000, retryAfter = None\<rparr>,
       Inr \<lparr>limit = Some 5, remaining = Some 3, reset = Some 300000, retryAfter = None\<rparr>,
       Inr \<lparr>limit = Some 5, remaining = Some 2, reset = Some 300000, retryAfter = None\<rparr>,
       Inr \<lparr>limit = Some 5, remaining = Some 1, reset = Some 300000, retryAfter = None\<rparr>,
       Inr \<lparr>limit = Some 5, remaining = Some 0, reset = Some 300000,
            retryAfter = Some (Fin 300)\<rparr>])"
  by (simp add: numeral_eq_Suc checkRateLimit_def Let_def configFor_def RATE_LIMITS_def
        generateKey_def getClientIdentifier_def nonEmpty_def exampleRequest_def readingAt_def
        secondsUntil_def reachedMax_def definedAnd_def pastReset_def)

text \<open>
  C2 as stated fails at the last instant of the window: five calls of class \<^verbatim>\<open>token\<close> at
  instant 0 open a window that ends at 300000; the sixth call, at instant 300000, is still in
  that window and is rejected with a RATE_LIMIT error whose \<open>retryAfter\<close> is \<open>0\<close>.
\<close>

theorem retry_after_zero_at_reset:
  "snd (checkRateLimit
          (fst (checkMany Map.empty exampleRequest ''orders'' ''token'' (replicate 5 (readingAt 0))))
          exampleRequest ''orders'' ''token'' (readingAt 300000))
   = Inl \<lparr>message = ''Rate limit exceeded. Please try again later.'',
          type = RATE_LIMIT, statusCode = 429, severity = MEDIUM,
          errContext = [(''retryAfter'', JNum (Fin 0))]\<rparr>"
  unfolding example_run
  by (simp add: checkRateLimit_def Let_def configFor_def RATE_LIMITS_def
        generateKey_def getClientIdentifier_def nonEmpty_def exampleRequest_def readingAt_def
        secondsUntil_def reachedMax_def definedAnd_def pastReset_def createRateLimitError_def)

end
